theory Spec2Isabelle
  imports Complex_Main
begin

section \<open>Data model of the SUNRISE runtime manager\<close>

text \<open>
  The session orchestration engine of the runtime manager, embedded from
  \<^verbatim>\<open>dataformats/dataformats.py\<close>, \<^verbatim>\<open>runtime_manager/src/parameters.py\<close>,
  \<^verbatim>\<open>runtime_manager/src/system.py\<close> and \<^verbatim>\<open>runtime_manager/src/session.py\<close>.

  Conventions of the embedding:
  \<^item> a Python \<^verbatim>\<open>str\<close> is a \<^typ>\<open>string\<close>; a character stands for the code point
    of the same number, so the strings of the model are the Python strings over
    the code points below 256; \<^verbatim>\<open>bytes\<close> are strings as well;
  \<^item> a Python object that is mutated in place is passed in and returned updated;
  \<^item> a raised exception is a value of the type \<open>error\<close>; an operation that can
    raise after it has already changed something returns the exception next to
    the state it leaves behind;
  \<^item> the operating system (regular files, the session directory, remote URLs) is
    the explicit record \<open>os_env\<close>.
\<close>

subsection \<open>Enumerations of \<^verbatim>\<open>dataformats.py\<close> and \<^verbatim>\<open>parameters.py\<close>\<close>

datatype State = CREATED | BUILDING | BUILT | FAILED_BUILD | RUNNING | RAN | FAILED_RUN

text \<open>\<^verbatim>\<open>State\<close> mixes in \<^verbatim>\<open>str\<close>: each member is the string given here.\<close>

fun State_value :: "State \<Rightarrow> string" where
  "State_value CREATED = ''created''"
| "State_value BUILDING = ''building''"
| "State_value BUILT = ''built''"
| "State_value FAILED_BUILD = ''failed build''"
| "State_value RUNNING = ''running''"
| "State_value RAN = ''ran''"
| "State_value FAILED_RUN = ''failed run''"

text \<open>\<^verbatim>\<open>str(state)\<close> of an enumeration member is the class and member name.\<close>

fun State_str :: "State \<Rightarrow> string" where
  "State_str CREATED = ''State.CREATED''"
| "State_str BUILDING = ''State.BUILDING''"
| "State_str BUILT = ''State.BUILT''"
| "State_str FAILED_BUILD = ''State.FAILED_BUILD''"
| "State_str RUNNING = ''State.RUNNING''"
| "State_str RAN = ''State.RAN''"
| "State_str FAILED_RUN = ''State.FAILED_RUN''"

datatype ParameterGroup = COMMON | BUILD | RUN

fun ParameterGroup_value :: "ParameterGroup \<Rightarrow> string" where
  "ParameterGroup_value COMMON = ''common_parameters''"
| "ParameterGroup_value BUILD = ''build_parameters''"
| "ParameterGroup_value RUN = ''run_parameters''"

text \<open>The call \<^verbatim>\<open>ParameterGroup(s)\<close>: lookup by value, \<^verbatim>\<open>ValueError\<close> (here \<open>None\<close>) otherwise.\<close>

definition ParameterGroup_of :: "string \<Rightarrow> ParameterGroup option" where
  "ParameterGroup_of s =
     (if s = ''common_parameters'' then Some COMMON
      else if s = ''build_parameters'' then Some BUILD
      else if s = ''run_parameters'' then Some RUN
      else None)"

datatype FileState = DEFAULT | PENDING | STAGED | AVAILABLE

subsection \<open>Values\<close>

text \<open>
  A Python \<^verbatim>\<open>float\<close> is a rational number, an infinity or NaN. The finite floats are
  a subset of the rationals and Python compares them (also with an \<^verbatim>\<open>int\<close>) exactly,
  so the comparisons below are the ones of the code.
\<close>

datatype pyfloat = Finite rat | PosInf | NegInf | NaN

record SysCfgUrlParameter =
  url :: string
  credentials :: "string option"

text \<open>
  The values a parameter, a definition entry or a configuration entry can hold:
  \<^verbatim>\<open>None\<close>, the primitives \<^verbatim>\<open>str\<close>, \<^verbatim>\<open>bool\<close>, \<^verbatim>\<open>int\<close>, \<^verbatim>\<open>float\<close>, the URL
  structure of a configuration, and a \<^verbatim>\<open>dict\<close> (the request of an update admits
  one as new value), here the list of its items.
\<close>

datatype pyvalue =
    VNone
  | VStr string
  | VBool bool
  | VInt int
  | VFloat pyfloat
  | VUrl SysCfgUrlParameter
  | VDict "(string \<times> pyvalue) list"

datatype error =
    LockedSessionError
  | UnexpectedSessionState string
  | ValueError string
  | NameError string
  | FileNotFoundError string
  | UnicodeEncodeError
  | AttributeError
  | TypeError
  | IndexError
  | KeyError string
  | SameFileError
  | IsADirectoryError
  | URLError string

subsection \<open>Definition-side parameter metadata\<close>

text \<open>
  \<^verbatim>\<open>SysDefParameterEnum.values\<close> is one of four homogeneous lists;
  the bounds of \<^verbatim>\<open>SysDefParameterRange\<close> are an \<^verbatim>\<open>int\<close> or a \<^verbatim>\<open>float\<close>.
\<close>

datatype enum_values =
    StrValues "string list"
  | BoolValues "bool list"
  | IntValues "int list"
  | FloatValues "pyfloat list"

datatype pynum = NInt int | NFloat pyfloat

datatype meta =
    SysDefParameterEnum enum_values
  | SysDefParameterRange pynum pynum
  | SysDefParameterFile bool

record SysDefCmplxParameter =
  cp_default_value :: pyvalue
  cp_meta :: "meta option"
  cp_description :: "string option"

text \<open>An entry of a definition group: a primitive (or \<^verbatim>\<open>None\<close>) or a complex parameter.\<close>

datatype sysdef_value = Simple pyvalue | Cmplx SysDefCmplxParameter

subsection \<open>Parameters\<close>

record FileData =
  file_name :: "string option"
  file_state :: "FileState option"
  file_path_default :: pyvalue
  file_path_origin :: pyvalue
  file_path_local :: "string option"
  file_path_container :: pyvalue
  fd_credentials :: "string option"

text \<open>
  The attribute \<^verbatim>\<open>value\<close> of the class is the field \<open>pvalue\<close> here.
\<close>

record Parameter =
  name :: string
  pvalue :: pyvalue
  overwritten :: bool
  meta_data :: "meta option"
  file_data :: "FileData option"
  default_value :: pyvalue

subsection \<open>The operating system\<close>

datatype fetch_result = Fetched string | HTTPError string | OtherURLError string

text \<open>
  \<open>fs\<close> maps the path of every regular file to its content; \<open>fd_files\<close> does so for
  the open file descriptors that are regular files (Python accepts an \<^verbatim>\<open>int\<close>
  where a path is expected); \<open>urlopen\<close> is the outcome of fetching a URL with an
  optional \<^verbatim>\<open>Authorization\<close> header; \<open>SESSIONS_BASE_DIR\<close> is read from the process
  environment. Creating directories and writing below the session directory are
  taken to succeed unless a case below says otherwise.
\<close>

record os_env =
  fs :: "string \<rightharpoonup> string"
  fd_files :: "int \<rightharpoonup> string"
  urlopen :: "string \<Rightarrow> string option \<Rightarrow> fetch_result"
  SESSIONS_BASE_DIR :: string

definition CONTAINER_WORKDIR :: string where
  "CONTAINER_WORKDIR = ''/sysapi''"

text \<open>\<^verbatim>\<open>posixpath.join\<close>; a component that is \<^verbatim>\<open>None\<close> raises \<^verbatim>\<open>TypeError\<close>.\<close>

definition join2 :: "string \<Rightarrow> string \<Rightarrow> string" where
  "join2 path b =
     (if b \<noteq> [] \<and> hd b = CHR ''/'' then b
      else if path = [] \<or> last path = CHR ''/'' then path @ b
      else path @ ''/'' @ b)"

definition os_path_join :: "string \<Rightarrow> string option list \<Rightarrow> error + string" where
  "os_path_join a ps =
     (if None \<in> set ps then Inl TypeError
      else Inr (foldl join2 a (map the ps)))"

text \<open>\<^verbatim>\<open>os.path.isfile\<close>: a string is a path, an integer a file descriptor.\<close>

fun os_path_isfile :: "os_env \<Rightarrow> pyvalue \<Rightarrow> error + bool" where
  "os_path_isfile env (VStr p) = Inr (fs env p \<noteq> None)"
| "os_path_isfile env (VInt i) = Inr (fd_files env i \<noteq> None)"
| "os_path_isfile env (VBool b) = Inr (fd_files env (if b then 1 else 0) \<noteq> None)"
| "os_path_isfile env _ = Inl TypeError"

text \<open>The content \<^verbatim>\<open>shutil.copyfile\<close> reads from a source that \<^verbatim>\<open>isfile\<close> accepted.\<close>

fun read_source :: "os_env \<Rightarrow> pyvalue \<Rightarrow> string option" where
  "read_source env (VStr p) = fs env p"
| "read_source env (VInt i) = fd_files env i"
| "read_source env (VBool b) = fd_files env (if b then 1 else 0)"
| "read_source env _ = None"

text \<open>
  Writing a file (\<^verbatim>\<open>open(path, 'wb')\<close> and \<^verbatim>\<open>write\<close>): a path that ends in a
  slash names a directory.
\<close>

definition write_file :: "os_env \<Rightarrow> string \<Rightarrow> string \<Rightarrow> error + os_env" where
  "write_file env path content =
     (if path = [] then Inl (FileNotFoundError path)
      else if last path = CHR ''/'' then Inl IsADirectoryError
      else Inr (env\<lparr>fs := (fs env)(path \<mapsto> content)\<rparr>))"

text \<open>
  \<^verbatim>\<open>shutil.copyfile\<close> refuses to copy a file onto itself. The files of the model
  have no identity besides their path, so two spellings of one path count as two
  files here.
\<close>

definition copyfile :: "os_env \<Rightarrow> pyvalue \<Rightarrow> string \<Rightarrow> error + os_env" where
  "copyfile env src dst =
     (if src = VStr dst then Inl SameFileError
      else case read_source env src of
             None \<Rightarrow> Inl (FileNotFoundError [])
           | Some content \<Rightarrow> write_file env dst content)"

section \<open>Parameters (\<^verbatim>\<open>parameters.py\<close>)\<close>

subsection \<open>\<^verbatim>\<open>Parameter.update_parameter\<close>\<close>

text \<open>
  \<^verbatim>\<open>str.lower\<close> on the code points below 256: the ASCII capitals and the Latin-1
  capitals (without the multiplication sign) move up by 32.
\<close>

definition char_lower :: "char \<Rightarrow> char" where
  "char_lower c =
     (let n = (of_char c :: nat)
      in if (65 \<le> n \<and> n \<le> 90) \<or> (192 \<le> n \<and> n \<le> 222 \<and> n \<noteq> 215)
         then char_of (n + 32) else c)"

definition str_lower :: "string \<Rightarrow> string" where
  "str_lower s = map char_lower s"

text \<open>
  A new value that is neither a \<^verbatim>\<open>bool\<close> nor a \<^verbatim>\<open>str\<close> has no method \<^verbatim>\<open>lower\<close>:
  the call raises \<^verbatim>\<open>AttributeError\<close> and the parameter keeps its value.
\<close>

definition update_parameter :: "Parameter \<Rightarrow> pyvalue \<Rightarrow> error + Parameter" where
  "update_parameter p new_value =
     (case pvalue p of
        VBool _ \<Rightarrow>
          (case new_value of
             VBool b \<Rightarrow> Inr (p\<lparr>pvalue := VBool b\<rparr>)
           | VStr s \<Rightarrow>
               (if str_lower s = ''true'' then Inr (p\<lparr>pvalue := VBool True\<rparr>)
                else Inr (p\<lparr>pvalue := VBool False\<rparr>))
           | _ \<Rightarrow> Inl AttributeError)
      | _ \<Rightarrow> Inr (p\<lparr>pvalue := new_value\<rparr>))"

subsection \<open>\<^verbatim>\<open>Parameter.reset\<close>\<close>

text \<open>\<^verbatim>\<open>os.remove\<close> of a path that \<^verbatim>\<open>isfile\<close> accepted.\<close>

definition os_remove :: "os_env \<Rightarrow> string \<Rightarrow> os_env" where
  "os_remove env path = env\<lparr>fs := (fs env)(path := None)\<rparr>"

definition reset :: "os_env \<Rightarrow> Parameter \<Rightarrow> os_env \<times> Parameter" where
  "reset env p =
     (case file_data p of
        Some fd \<Rightarrow>
          (let env' = (case file_path_local fd of
                         Some l \<Rightarrow> (if fs env l \<noteq> None then os_remove env l else env)
                       | None \<Rightarrow> env)
           in (env', p\<lparr>file_data := Some (fd\<lparr>
                  file_path_container := file_path_default fd,
                  file_state := Some DEFAULT,
                  fd_credentials := None,
                  file_name := None,
                  file_path_origin := VNone,
                  file_path_local := None\<rparr>)\<rparr>))
      | None \<Rightarrow> (env, p\<lparr>pvalue := default_value p\<rparr>))"

subsection \<open>Outcomes of operations that mutate\<close>

text \<open>
  An operation on mutable objects either returns, or raises an exception; in both
  cases it leaves a state behind.
\<close>

datatype 's outcome = Ok 's | Raise error 's

fun left_behind :: "'s outcome \<Rightarrow> 's" where
  "left_behind (Ok s) = s"
| "left_behind (Raise e s) = s"

fun raised :: "'s outcome \<Rightarrow> error option" where
  "raised (Ok s) = None"
| "raised (Raise e s) = Some e"

subsection \<open>\<^verbatim>\<open>Parameter.process_input_file\<close>\<close>

text \<open>
  The uploaded object \<^verbatim>\<open>file\<close> as the code observes it: \<^verbatim>\<open>str(file)\<close>, and its
  content when it is bytes-like (only then \<^verbatim>\<open>write\<close> accepts it).
\<close>

record upload =
  upload_str :: string
  upload_bytes :: "string option"

definition destination_dir :: "os_env \<Rightarrow> string \<Rightarrow> ParameterGroup \<Rightarrow> string \<Rightarrow> string" where
  "destination_dir env session_id grp pname =
     foldl join2 (SESSIONS_BASE_DIR env) [session_id, ''inputs'', ParameterGroup_value grp, pname]"

definition mounted_path :: "ParameterGroup \<Rightarrow> string \<Rightarrow> string option \<Rightarrow> error + string" where
  "mounted_path grp pname fname =
     os_path_join CONTAINER_WORKDIR
       [Some ''inputs'', Some (ParameterGroup_value grp), Some pname, fname]"

definition quoted :: "string \<Rightarrow> string" where
  "quoted s = [CHR 0x27] @ s @ [CHR 0x27]"

text \<open>The two ways the content reaches the destination file.\<close>

definition store_upload :: "os_env \<Rightarrow> upload \<Rightarrow> string \<Rightarrow> os_env outcome" where
  "store_upload env file destination_file =
     (if fs env (upload_str file) \<noteq> None
      then (case copyfile env (VStr (upload_str file)) destination_file of
              Inl e \<Rightarrow> Raise e env
            | Inr env' \<Rightarrow> Ok env')
      else (case write_file env destination_file [] of
              Inl e \<Rightarrow> Raise e env
            | Inr env0 \<Rightarrow>
                (case upload_bytes file of
                   None \<Rightarrow> Raise TypeError env0
                 | Some content \<Rightarrow> Ok (env0\<lparr>fs := (fs env0)(destination_file \<mapsto> content)\<rparr>))))"

definition process_input_file ::
  "os_env \<Rightarrow> Parameter \<Rightarrow> string \<Rightarrow> ParameterGroup \<Rightarrow> string option \<Rightarrow> upload
     \<Rightarrow> (os_env \<times> Parameter) outcome" where
  "process_input_file env p session_id grp fname file =
     (case file_data p of
        None \<Rightarrow>
          Raise (NameError (''Selected parameter '' @ quoted (name p)
                   @ '' is not a file and cannot be uploaded with a file.'')) (env, p)
      | Some fd \<Rightarrow>
          if file_path_container fd = VNone \<and> file_path_origin fd = VNone then
            Raise (ValueError (''Corrupted parameter '' @ quoted (name p)
                     @ '': Marked as file parameter but has no valid path.'')) (env, p)
          else
            (case os_path_join (destination_dir env session_id grp (name p)) [fname] of
               Inl e \<Rightarrow> Raise e (env, p)
             | Inr destination_file \<Rightarrow>
                 (case store_upload env file destination_file of
                    Raise e env' \<Rightarrow> Raise e (env', p)
                  | Ok env' \<Rightarrow>
                      (let fd1 = fd\<lparr>file_name := fname, file_state := Some STAGED\<rparr>
                       in case mounted_path grp (name p) fname of
                            Inl e \<Rightarrow> Raise e (env', p\<lparr>file_data := Some fd1\<rparr>)
                          | Inr target_mounted_dir \<Rightarrow>
                              Ok (env', p\<lparr>file_data := Some (fd1\<lparr>
                                    file_path_container := VStr target_mounted_dir,
                                    file_path_local := Some destination_file\<rparr>)\<rparr>)))))"

subsection \<open>\<^verbatim>\<open>Parameter.stage_file\<close>\<close>

text \<open>\<^verbatim>\<open>s.split(sep)\<close> for a separator of one character.\<close>

fun split_on :: "char \<Rightarrow> string \<Rightarrow> string list" where
  "split_on sep [] = [[]]"
| "split_on sep (c # cs) =
     (if c = sep then [] # split_on sep cs
      else (case split_on sep cs of
              [] \<Rightarrow> [[c]]
            | x # xs \<Rightarrow> (c # x) # xs))"

definition startswith :: "string \<Rightarrow> string \<Rightarrow> bool" where
  "startswith s pre = (take (length pre) s = pre)"

definition is_web_url :: "string \<Rightarrow> bool" where
  "is_web_url s = (startswith s ''http://'' \<or> startswith s ''https://'' \<or> startswith s ''ftp://'')"

text \<open>
  The header \<^verbatim>\<open>Authorization: Bearer <credentials>\<close> is attached when the
  credentials are present; the credential bytes of a parameter are ASCII (see the
  constructor), so decoding them gives the same characters.
\<close>

definition bearer :: "string option \<Rightarrow> string option" where
  "bearer c = map_option (\<lambda>b. ''Bearer '' @ b) c"

text \<open>The branch for an origin that is a regular file on this machine.\<close>

definition stage_local ::
  "os_env \<Rightarrow> Parameter \<Rightarrow> FileData \<Rightarrow> string \<Rightarrow> ParameterGroup \<Rightarrow> (os_env \<times> Parameter) outcome" where
  "stage_local env p fd session_id grp =
     (case os_path_join (destination_dir env session_id grp (name p)) [file_name fd] of
        Inl e \<Rightarrow> Raise e (env, p)
      | Inr destination_file \<Rightarrow>
          (case copyfile env (file_path_origin fd) destination_file of
             Inl e \<Rightarrow> Raise e (env, p)
           | Inr env' \<Rightarrow>
               (case mounted_path grp (name p) (file_name fd) of
                  Inl e \<Rightarrow> Raise e (env', p)
                | Inr target_mounted_dir \<Rightarrow>
                    Ok (env', p\<lparr>file_data := Some (fd\<lparr>
                          file_path_container := VStr target_mounted_dir,
                          file_path_local := Some destination_file,
                          file_state := Some STAGED\<rparr>)\<rparr>))))"

text \<open>
  The branch for a web URL. Only \<^verbatim>\<open>urllib.error.HTTPError\<close> is caught and turned
  into \<^verbatim>\<open>FileNotFoundError\<close>; the file name is assigned before the content is
  written.
\<close>

definition stage_url ::
  "os_env \<Rightarrow> Parameter \<Rightarrow> FileData \<Rightarrow> string \<Rightarrow> string \<Rightarrow> ParameterGroup
     \<Rightarrow> (os_env \<times> Parameter) outcome" where
  "stage_url env p fd origin session_id grp =
     (case urlopen env origin (bearer (fd_credentials fd)) of
        HTTPError exc \<Rightarrow>
          Raise (FileNotFoundError (''Unable to download file from URL '' @ quoted origin
                   @ '' for the parameter '' @ quoted (name p) @ '': '' @ exc)) (env, p)
      | OtherURLError exc \<Rightarrow> Raise (URLError exc) (env, p)
      | Fetched content \<Rightarrow>
          (let fname = last (split_on CHR ''/'' origin);
               fd1 = fd\<lparr>file_name := Some fname\<rparr>;
               destination_file = join2 (destination_dir env session_id grp (name p)) fname
           in case write_file env destination_file content of
                Inl e \<Rightarrow> Raise e (env, p\<lparr>file_data := Some fd1\<rparr>)
              | Inr env' \<Rightarrow>
                  (case mounted_path grp (name p) (Some fname) of
                     Inl e \<Rightarrow> Raise e (env', p\<lparr>file_data := Some fd1\<rparr>)
                   | Inr target_mounted_dir \<Rightarrow>
                       Ok (env', p\<lparr>file_data := Some (fd1\<lparr>
                             file_path_container := VStr target_mounted_dir,
                             file_path_local := Some destination_file,
                             file_state := Some STAGED\<rparr>)\<rparr>))))"

definition stage_file ::
  "os_env \<Rightarrow> Parameter \<Rightarrow> string \<Rightarrow> ParameterGroup \<Rightarrow> (os_env \<times> Parameter) outcome" where
  "stage_file env p session_id grp =
     (case file_data p of
        None \<Rightarrow> Ok (env, p)
      | Some fd \<Rightarrow>
          if file_state fd = Some PENDING then
            (case os_path_isfile env (file_path_origin fd) of
               Inl e \<Rightarrow> Raise e (env, p)
             | Inr True \<Rightarrow> stage_local env p fd session_id grp
             | Inr False \<Rightarrow>
                 (case file_path_origin fd of
                    VStr origin \<Rightarrow>
                      if is_web_url origin then stage_url env p fd origin session_id grp
                      else Raise (FileNotFoundError
                             (''Cannot make file parameter '' @ quoted (name p)
                                @ '' with origin file path '' @ quoted origin @ '' available. ''
                                @ ''Use '' @ quoted ''add'' @ '' API call to upload the file.''))
                             (env, p)
                  | _ \<Rightarrow> Raise AttributeError (env, p)))
          else Ok (env, p))"

definition mark_file_parameter_available :: "Parameter \<Rightarrow> Parameter" where
  "mark_file_parameter_available p =
     (case file_data p of
        Some fd \<Rightarrow>
          (if file_state fd = Some STAGED
           then p\<lparr>file_data := Some (fd\<lparr>file_state := Some AVAILABLE\<rparr>)\<rparr> else p)
      | None \<Rightarrow> p)"

subsection \<open>The constructor \<^verbatim>\<open>Parameter.__init__\<close>\<close>

text \<open>
  \<^verbatim>\<open>bytes(s, 'ascii')\<close> raises \<^verbatim>\<open>UnicodeEncodeError\<close> (in Python a subclass of
  \<^verbatim>\<open>ValueError\<close>) on a code point above 127.
\<close>

definition is_ascii :: "string \<Rightarrow> bool" where
  "is_ascii s = list_all (\<lambda>c. (of_char c :: nat) < 128) s"

definition bytes_ascii :: "string \<Rightarrow> error + string" where
  "bytes_ascii s = (if is_ascii s then Inr s else Inl UnicodeEncodeError)"

text \<open>
  \<^verbatim>\<open>__parse_file_parameter\<close>, called with \<^verbatim>\<open>meta.is_file\<close> (a \<^verbatim>\<open>bool\<close> by the type
  of \<^verbatim>\<open>SysDefParameterFile\<close>) and the default value of the definition.
\<close>

definition parse_file_parameter :: "Parameter \<Rightarrow> bool \<Rightarrow> pyvalue \<Rightarrow> error + Parameter" where
  "parse_file_parameter p param_subentry_value sysdef_param_path_value =
     (if param_subentry_value then
        (let fd = \<lparr>file_name = None, file_state = None,
                   file_path_default = sysdef_param_path_value, file_path_origin = VNone,
                   file_path_local = None, file_path_container = VNone,
                   fd_credentials = None\<rparr>;
             p1 = p\<lparr>file_data := Some fd, default_value := sysdef_param_path_value\<rparr>
         in if overwritten p1 then
              (case pvalue p1 of
                 VUrl u \<Rightarrow>
                   (case credentials u of
                      Some c \<Rightarrow>
                        (case bytes_ascii c of
                           Inl e \<Rightarrow> Inl e
                         | Inr b \<Rightarrow>
                             Inr (p1\<lparr>file_data := Some (fd\<lparr>file_path_origin := VStr (url u),
                                     fd_credentials := Some b, file_state := Some PENDING\<rparr>)\<rparr>))
                    | None \<Rightarrow>
                        Inr (p1\<lparr>file_data := Some (fd\<lparr>file_path_origin := VStr (url u),
                                file_state := Some PENDING\<rparr>)\<rparr>))
               | v \<Rightarrow>
                   Inr (p1\<lparr>file_data := Some (fd\<lparr>file_path_origin := v,
                           file_state := Some PENDING\<rparr>)\<rparr>))
            else
              Inr (p1\<lparr>file_data := Some (fd\<lparr>file_path_container := default_value p1,
                      file_state := Some DEFAULT\<rparr>)\<rparr>))
      else Inr p)"

text \<open>
  \<^verbatim>\<open>Parameter(name, value, sysdef_param_value, overwritten)\<close>. For a primitive
  definition entry the default is the entry itself.
\<close>

definition Parameter_init ::
  "string \<Rightarrow> pyvalue \<Rightarrow> sysdef_value \<Rightarrow> bool \<Rightarrow> error + Parameter" where
  "Parameter_init nm v sysdef_param_value ow =
     (case sysdef_param_value of
        Simple d \<Rightarrow>
          Inr \<lparr>name = nm, pvalue = v, overwritten = ow, meta_data = None,
               file_data = None, default_value = d\<rparr>
      | Cmplx c \<Rightarrow>
          (let p = \<lparr>name = nm, pvalue = (if \<not> ow then cp_default_value c else v),
                    overwritten = ow, meta_data = None, file_data = None,
                    default_value = cp_default_value c\<rparr>
           in case cp_meta c of
                None \<Rightarrow> Inr p
              | Some m \<Rightarrow>
                  (case m of
                     SysDefParameterFile is_file \<Rightarrow>
                       parse_file_parameter (p\<lparr>meta_data := Some m\<rparr>) is_file (cp_default_value c)
                   | _ \<Rightarrow> Inr (p\<lparr>meta_data := Some m\<rparr>))))"

section \<open>System (\<^verbatim>\<open>system.py\<close>)\<close>

subsection \<open>\<^verbatim>\<open>System.__parse_parameter_group\<close>\<close>

text \<open>
  A parameter group of a document is a dictionary: here the list of its items in
  insertion order, with pairwise distinct keys. \<^verbatim>\<open>None\<close> for an absent group.
\<close>

type_synonym sysdef_group = "(string \<times> sysdef_value) list"
type_synonym syscfg_group = "(string \<times> pyvalue) list"

text \<open>The first loop: every name of the configuration must be in the definition.\<close>

fun check_syscfg_names :: "string list \<Rightarrow> sysdef_group \<Rightarrow> error option" where
  "check_syscfg_names [] sysdef_parameters = None"
| "check_syscfg_names (param_name # rest) sysdef_parameters =
     (if map_of sysdef_parameters param_name = None
      then Some (ValueError (''Cannot find parameter '' @ quoted param_name
                   @ '' of SysCfg file in SysDef file!''))
      else check_syscfg_names rest sysdef_parameters)"

text \<open>
  The choice between override and default. Without an override the code hands the
  definition entry itself to the constructor, which replaces a complex entry by its
  default value; \<open>entry_value\<close> is that entry as a value.
\<close>

definition entry_value :: "sysdef_value \<Rightarrow> pyvalue" where
  "entry_value e = (case e of Simple d \<Rightarrow> d | Cmplx c \<Rightarrow> cp_default_value c)"

definition select_value :: "syscfg_group option \<Rightarrow> string \<Rightarrow> sysdef_value \<Rightarrow> pyvalue \<times> bool" where
  "select_value syscfg_parameters param_name sysdef_param_value =
     (case syscfg_parameters of
        None \<Rightarrow> (entry_value sysdef_param_value, False)
      | Some cfg \<Rightarrow>
          (case map_of cfg param_name of
             None \<Rightarrow> (entry_value sysdef_param_value, False)
           | Some VNone \<Rightarrow> (entry_value sysdef_param_value, False)
           | Some v \<Rightarrow> (v, True)))"

text \<open>The second loop, with the list \<^verbatim>\<open>all_parameter_names\<close> of the names seen so far.\<close>

fun parse_entries ::
  "sysdef_group \<Rightarrow> syscfg_group option \<Rightarrow> string list \<Rightarrow> error + Parameter list" where
  "parse_entries [] syscfg_parameters all_parameter_names = Inr []"
| "parse_entries ((param_name, sysdef_param_value) # rest) syscfg_parameters all_parameter_names =
     (if param_name \<in> set all_parameter_names
      then Inl (ValueError (''Parameter '' @ quoted param_name @ '' is multiple times defined. ''
                  @ ''Parameter names must be unique inside a parameter group.''))
      else
        (let (param_value, ow) = select_value syscfg_parameters param_name sysdef_param_value
         in case Parameter_init param_name param_value sysdef_param_value ow of
              Inl e \<Rightarrow> Inl e
            | Inr parameter \<Rightarrow>
                (case parse_entries rest syscfg_parameters (all_parameter_names @ [param_name]) of
                   Inl e \<Rightarrow> Inl e
                 | Inr parameter_group \<Rightarrow> Inr (parameter # parameter_group))))"

definition parse_parameter_group ::
  "sysdef_group option \<Rightarrow> syscfg_group option \<Rightarrow> error + Parameter list" where
  "parse_parameter_group sysdef_parameters syscfg_parameters =
     (let checked =
            (case syscfg_parameters of
               None \<Rightarrow> None
             | Some cfg \<Rightarrow>
                 (case sysdef_parameters of
                    None \<Rightarrow>
                      (if length cfg > 0
                       then Some (ValueError ''Cannot find parameter group of SysCfg file in SysDef file!'')
                       else None)
                  | Some sysdef \<Rightarrow> check_syscfg_names (map fst cfg) sysdef))
      in case checked of
           Some e \<Rightarrow> Inl e
         | None \<Rightarrow>
             (case sysdef_parameters of
                None \<Rightarrow> Inr []
              | Some sysdef \<Rightarrow> parse_entries sysdef syscfg_parameters []))"

subsection \<open>The system of a session\<close>

text \<open>A result of the definition (\<^verbatim>\<open>SysDefResult\<close> of \<^verbatim>\<open>dataformats.py\<close>).\<close>

record SysDefResult =
  result_path :: string
  enabled_by :: "string list option"

record System =
  has_build :: bool
  parameters :: "ParameterGroup \<Rightarrow> Parameter list"
  results :: "string \<rightharpoonup> SysDefResult"

definition get_parameter :: "System \<Rightarrow> ParameterGroup \<Rightarrow> string \<Rightarrow> Parameter option" where
  "get_parameter sys grp parameter_name = find (\<lambda>p. name p = parameter_name) (parameters sys grp)"

text \<open>
  The parameter objects are mutated in place; here the first parameter of the name
  is replaced in the list of its group.
\<close>

fun replace_first :: "string \<Rightarrow> Parameter \<Rightarrow> Parameter list \<Rightarrow> Parameter list" where
  "replace_first n p' [] = []"
| "replace_first n p' (p # ps) = (if name p = n then p' # ps else p # replace_first n p' ps)"

definition put_parameter :: "System \<Rightarrow> ParameterGroup \<Rightarrow> string \<Rightarrow> Parameter \<Rightarrow> System" where
  "put_parameter sys grp n p' =
     sys\<lparr>parameters := (parameters sys)(grp := replace_first n p' (parameters sys grp))\<rparr>"

section \<open>Sessions (\<^verbatim>\<open>session.py\<close>)\<close>

record Session =
  session_id :: string
  system :: System
  state :: State

subsection \<open>\<^verbatim>\<open>Session.__update_state_after_param_change\<close>\<close>

definition update_state_after_param_change :: "Session \<Rightarrow> ParameterGroup \<Rightarrow> Session" where
  "update_state_after_param_change session changed_param_group =
     (if changed_param_group \<in> {COMMON, BUILD} then
        (if state session \<in> {BUILT, FAILED_BUILD, RAN, FAILED_RUN} then
           (if has_build (system session) then session\<lparr>state := CREATED\<rparr>
            else session\<lparr>state := BUILT\<rparr>)
         else session)
      else if changed_param_group = RUN then
        (if state session \<in> {RAN, FAILED_RUN} then session\<lparr>state := BUILT\<rparr> else session)
      else session)"

subsection \<open>\<^verbatim>\<open>Session.update\<close>, \<^verbatim>\<open>Session.add\<close>, \<^verbatim>\<open>Session.delete\<close>\<close>

text \<open>
  An f-string renders the parameter group by its value up to Python 3.10 and by its
  member name from Python 3.11 on; the messages here carry the value.
\<close>

definition not_in_definition :: "string \<Rightarrow> ParameterGroup \<Rightarrow> string" where
  "not_in_definition parameter_name parameter_group =
     ''Selected parameter '' @ quoted parameter_name @ '' in parameter group ''
       @ quoted (ParameterGroup_value parameter_group) @ '' is not part of system definition.''"

definition update :: "Session \<Rightarrow> ParameterGroup \<Rightarrow> string \<Rightarrow> pyvalue \<Rightarrow> Session outcome" where
  "update session parameter_group parameter_name parameter_value =
     (if state session \<in> {BUILDING, RUNNING} then Raise LockedSessionError session
      else case get_parameter (system session) parameter_group parameter_name of
             Some parameter \<Rightarrow>
               (case update_parameter parameter parameter_value of
                  Inl e \<Rightarrow> Raise e session
                | Inr parameter' \<Rightarrow>
                    Ok (update_state_after_param_change
                          (session\<lparr>system := put_parameter (system session) parameter_group
                                                 parameter_name parameter'\<rparr>)
                          parameter_group))
           | None \<Rightarrow>
               Raise (ValueError (''Selected parameter '' @ quoted parameter_name
                        @ '' is not part of system definition.'')) session)"

definition add ::
  "os_env \<Rightarrow> Session \<Rightarrow> ParameterGroup \<Rightarrow> string \<Rightarrow> string option \<Rightarrow> upload
     \<Rightarrow> (os_env \<times> Session) outcome" where
  "add env session parameter_group parameter_name fname file =
     (if state session \<in> {BUILDING, RUNNING} then Raise LockedSessionError (env, session)
      else case get_parameter (system session) parameter_group parameter_name of
             Some parameter \<Rightarrow>
               (case process_input_file env parameter (session_id session) parameter_group fname file of
                  Raise e (env', parameter') \<Rightarrow>
                    Raise e (env', session\<lparr>system := put_parameter (system session) parameter_group
                                                        parameter_name parameter'\<rparr>)
                | Ok (env', parameter') \<Rightarrow>
                    Ok (env', update_state_after_param_change
                                (session\<lparr>system := put_parameter (system session) parameter_group
                                                       parameter_name parameter'\<rparr>)
                                parameter_group))
           | None \<Rightarrow>
               Raise (ValueError (not_in_definition parameter_name parameter_group)) (env, session))"

definition delete ::
  "os_env \<Rightarrow> Session \<Rightarrow> ParameterGroup \<Rightarrow> string \<Rightarrow> (os_env \<times> Session) outcome" where
  "delete env session parameter_group parameter_name =
     (case get_parameter (system session) parameter_group parameter_name of
        Some parameter \<Rightarrow>
          (let (env', parameter') = reset env parameter
           in Ok (env', update_state_after_param_change
                          (session\<lparr>system := put_parameter (system session) parameter_group
                                                 parameter_name parameter'\<rparr>)
                          parameter_group))
      | None \<Rightarrow>
          Raise (ValueError (not_in_definition parameter_name parameter_group)) (env, session))"

subsection \<open>\<^verbatim>\<open>Session.__execute_precondition_check\<close>\<close>

text \<open>
  The check on the opened session; \<^verbatim>\<open>Session.execute\<close> starts with it and does
  nothing else when it raises.
\<close>

definition execute_precondition_check :: "Session \<Rightarrow> string \<Rightarrow> error option" where
  "execute_precondition_check session command =
     (if state session \<in> {BUILDING, RUNNING} then
        Some (UnexpectedSessionState (''Cannot execute '' @ quoted command
                @ '' as session is already '' @ quoted ''building'' @ '' or ''
                @ quoted ''running'' @ ''!''))
      else if command = ''run'' \<and> has_build (system session)
              \<and> state session \<notin> {BUILT, RAN, FAILED_RUN} then
        Some (UnexpectedSessionState (''Cannot execute '' @ quoted ''run''
                @ '' as session state is not '' @ quoted ''built'' @ '' or '' @ quoted ''ran'' @ ''!''))
      else None)"

subsection \<open>\<^verbatim>\<open>Session.get_result_availability\<close>\<close>

text \<open>The test \<^verbatim>\<open>a in b\<close> on strings: \<open>a\<close> occurs in \<open>b\<close> as a contiguous piece.\<close>

fun str_contains :: "string \<Rightarrow> string \<Rightarrow> bool" where
  "str_contains [] a = (a = [])"
| "str_contains (c # cs) a = (startswith (c # cs) a \<or> str_contains cs a)"

text \<open>\<^verbatim>\<open>parts[-1]\<close> and \<^verbatim>\<open>parts[-2]\<close>; the latter raises \<^verbatim>\<open>IndexError\<close> on a list of one.\<close>

definition second_last :: "'a list \<Rightarrow> 'a option" where
  "second_last xs = (if length xs < 2 then None else Some (xs ! (length xs - 2)))"

definition not_available_state :: "string \<Rightarrow> State \<Rightarrow> State \<Rightarrow> string" where
  "not_available_state result_name st required =
     ''Result '' @ quoted result_name @ '' is not available: Session state is ''
       @ quoted (State_str st) @ '' but at least '' @ quoted (State_str required)
       @ '' is required.''"

definition not_true_message :: "string \<Rightarrow> string \<Rightarrow> string" where
  "not_true_message result_name pname =
     ''Result '' @ quoted result_name @ '' is not available: Required parameter ''
       @ quoted pname @ '' is not set to '' @ quoted ''true'' @ ''.''"

definition not_boolean_message :: "string \<Rightarrow> string \<Rightarrow> string" where
  "not_boolean_message result_name pname =
     ''Result '' @ quoted result_name @ '' cannot be generated: Required parameter ''
       @ quoted pname @ '' is not a boolean type. The SysDef is invalid for this result.''"

text \<open>
  One round of the loop over \<^verbatim>\<open>enabled_by\<close>: an exception, a verdict that ends the
  loop (\<open>Some message\<close>), or \<open>None\<close> to go on.
\<close>

definition check_enable_entry :: "Session \<Rightarrow> string \<Rightarrow> string \<Rightarrow> error + string option" where
  "check_enable_entry session result_name enable_entry =
     (let parts = split_on CHR ''/'' enable_entry;
          parameter_name = last parts
      in case second_last parts of
           None \<Rightarrow> Inl IndexError
         | Some g \<Rightarrow>
             (case ParameterGroup_of g of
                None \<Rightarrow> Inl (ValueError (quoted g @ '' is not a valid ParameterGroup''))
              | Some parameter_group \<Rightarrow>
                  (case get_parameter (system session) parameter_group parameter_name of
                     None \<Rightarrow> Inl AttributeError
                   | Some parameter \<Rightarrow>
                       (case pvalue parameter of
                          VBool b \<Rightarrow>
                            if \<not> b then Inr (Some (not_true_message result_name (name parameter)))
                            else if parameter_group = BUILD
                                    \<and> state session \<notin> {BUILT, RUNNING, RAN, FAILED_RUN}
                            then Inr (Some (not_available_state result_name (state session) BUILT))
                            else if parameter_group = RUN
                                    \<and> \<not> str_contains (State_value RAN) (State_value (state session))
                            then Inr (Some (not_available_state result_name (state session) RAN))
                            else Inr None
                        | _ \<Rightarrow> Inr (Some (not_boolean_message result_name (name parameter)))))))"

fun check_enabled_by :: "Session \<Rightarrow> string \<Rightarrow> string list \<Rightarrow> error + string option" where
  "check_enabled_by session result_name [] = Inr None"
| "check_enabled_by session result_name (enable_entry # rest) =
     (case check_enable_entry session result_name enable_entry of
        Inl e \<Rightarrow> Inl e
      | Inr (Some message) \<Rightarrow> Inr (Some message)
      | Inr None \<Rightarrow> check_enabled_by session result_name rest)"

text \<open>The pair \<^verbatim>\<open>(available, message)\<close> that the method returns.\<close>

definition get_result_availability :: "Session \<Rightarrow> string \<Rightarrow> error + bool \<times> string option" where
  "get_result_availability session result_name =
     (case results (system session) result_name of
        None \<Rightarrow> Inl (KeyError result_name)
      | Some result \<Rightarrow>
          (case enabled_by result of
             Some entries \<Rightarrow>
               (case check_enabled_by session result_name entries of
                  Inl e \<Rightarrow> Inl e
                | Inr (Some message) \<Rightarrow> Inr (False, Some message)
                | Inr None \<Rightarrow> Inr (True, None))
           | None \<Rightarrow>
               if state session \<noteq> RAN
               then Inr (False, Some (not_available_state result_name (state session) RAN))
               else Inr (True, None)))"

section \<open>Validation of the documents (\<^verbatim>\<open>dataformats.py\<close>)\<close>

subsection \<open>\<^verbatim>\<open>SysDefCmplxParameter.check_default_value\<close>\<close>

datatype pytype = TStr | TBool | TInt | TFloat

text \<open>\<^verbatim>\<open>type(v)\<close> of a primitive.\<close>

fun type_of :: "pyvalue \<Rightarrow> pytype option" where
  "type_of (VStr s) = Some TStr"
| "type_of (VBool b) = Some TBool"
| "type_of (VInt i) = Some TInt"
| "type_of (VFloat f) = Some TFloat"
| "type_of v = None"

text \<open>\<^verbatim>\<open>isinstance(v, t)\<close>: \<^verbatim>\<open>bool\<close> is a subclass of \<^verbatim>\<open>int\<close> in Python.\<close>

fun isinstance :: "pyvalue \<Rightarrow> pytype \<Rightarrow> bool" where
  "isinstance (VStr s) t = (t = TStr)"
| "isinstance (VBool b) t = (t = TBool \<or> t = TInt)"
| "isinstance (VInt i) t = (t = TInt)"
| "isinstance (VFloat f) t = (t = TFloat)"
| "isinstance v t = False"

text \<open>The numeric value of a \<^verbatim>\<open>bool\<close>, \<^verbatim>\<open>int\<close> or \<^verbatim>\<open>float\<close>.\<close>

fun num_of :: "pyvalue \<Rightarrow> pyfloat option" where
  "num_of (VBool b) = Some (Finite (if b then 1 else 0))"
| "num_of (VInt i) = Some (Finite (of_int i))"
| "num_of (VFloat f) = Some f"
| "num_of v = None"

fun float_eq :: "pyfloat \<Rightarrow> pyfloat \<Rightarrow> bool" where
  "float_eq (Finite a) (Finite b) = (a = b)"
| "float_eq PosInf PosInf = True"
| "float_eq NegInf NegInf = True"
| "float_eq x y = False"

fun float_le :: "pyfloat \<Rightarrow> pyfloat \<Rightarrow> bool" where
  "float_le NaN y = False"
| "float_le x NaN = False"
| "float_le NegInf y = True"
| "float_le x PosInf = True"
| "float_le (Finite a) (Finite b) = (a \<le> b)"
| "float_le x y = False"

text \<open>Python's \<^verbatim>\<open>==\<close> on primitives: numbers compare by value, a string only with a string.\<close>

definition py_eq :: "pyvalue \<Rightarrow> pyvalue \<Rightarrow> bool" where
  "py_eq a b =
     (case (a, b) of
        (VStr s, VStr t) \<Rightarrow> s = t
      | _ \<Rightarrow>
          (case (num_of a, num_of b) of
             (Some x, Some y) \<Rightarrow> float_eq x y
           | _ \<Rightarrow> False))"

fun values_list :: "enum_values \<Rightarrow> pyvalue list" where
  "values_list (StrValues xs) = map VStr xs"
| "values_list (BoolValues xs) = map VBool xs"
| "values_list (IntValues xs) = map VInt xs"
| "values_list (FloatValues xs) = map VFloat xs"

text \<open>
  \<^verbatim>\<open>x in values\<close>, as far as it compares by \<^verbatim>\<open>==\<close>. Python accepts the very same
  object before it compares; values have no identity here, which differs from the
  code only for a NaN that is one object in both places.
\<close>

definition py_in :: "pyvalue \<Rightarrow> pyvalue list \<Rightarrow> bool" where
  "py_in x xs = list_ex (py_eq x) xs"

fun num_value :: "pynum \<Rightarrow> pyfloat" where
  "num_value (NInt i) = Finite (of_int i)"
| "num_value (NFloat f) = f"

definition py_repr_type :: "pyvalue \<Rightarrow> string" where
  "py_repr_type v =
     (case v of VStr _ \<Rightarrow> ''<class 'str'>'' | VBool _ \<Rightarrow> ''<class 'bool'>''
      | VInt _ \<Rightarrow> ''<class 'int'>'' | VFloat _ \<Rightarrow> ''<class 'float'>''
      | VNone \<Rightarrow> ''<class 'NoneType'>'' | VUrl _ \<Rightarrow> ''<class 'SysCfgUrlParameter'>''
      | VDict _ \<Rightarrow> ''<class 'dict'>'')"

text \<open>
  The validator runs after the fields of a complex parameter are parsed, that is
  while the definition document is parsed. \<^verbatim>\<open>values[0]\<close> raises \<^verbatim>\<open>IndexError\<close> on an
  empty list. The texts of the \<^verbatim>\<open>ValueError\<close>s that print the default value are
  left out.
\<close>

definition check_default_value :: "SysDefCmplxParameter \<Rightarrow> error + SysDefCmplxParameter" where
  "check_default_value self =
     (case cp_meta self of
        Some (SysDefParameterEnum vs) \<Rightarrow>
          (case values_list vs of
             [] \<Rightarrow> Inl IndexError
           | v0 # _ \<Rightarrow>
               if \<not> (case type_of v0 of Some t \<Rightarrow> isinstance (cp_default_value self) t | None \<Rightarrow> False)
               then Inl (ValueError (''Default value of enum-parameter has unexpected type ''
                           @ py_repr_type (cp_default_value self)))
               else if \<not> py_in (cp_default_value self) (values_list vs)
               then Inl (ValueError ''Unexpected default value of enum-parameter'')
               else Inr self)
      | Some (SysDefParameterRange lower upper) \<Rightarrow>
          (case num_of (cp_default_value self) of
             None \<Rightarrow>
               Inl (ValueError (''Default value of range-parameter has unexpected type ''
                      @ py_repr_type (cp_default_value self)))
           | Some d \<Rightarrow>
               if \<not> (float_le (num_value lower) d \<and> float_le d (num_value upper))
               then Inl (ValueError ''Default value of range-parameter is not inside boundaries'')
               else Inr self)
      | Some (SysDefParameterFile is_file) \<Rightarrow>
          (if \<not> isinstance (cp_default_value self) TStr
           then Inl (ValueError ''Default value of file-parameter is not a string'')
           else Inr self)
      | None \<Rightarrow> Inr self)"

subsection \<open>The field \<^verbatim>\<open>dataformat\<close> of \<^verbatim>\<open>SysDef\<close> and \<^verbatim>\<open>SysCfg\<close>\<close>

definition SYSCFG_DATAFORMAT_IDENTIFIER :: string where
  "SYSCFG_DATAFORMAT_IDENTIFIER = ''syscfg:0.3''"

definition SYSDEF_DATAFORMAT_IDENTIFIER :: string where
  "SYSDEF_DATAFORMAT_IDENTIFIER = ''sysdef:0.4''"

text \<open>
  What a document can carry in the place of the field: nothing, \<^verbatim>\<open>null\<close>, a
  string, or a value of another JSON type.
\<close>

datatype raw_field = Absent | JNull | JString string | JOther

datatype validation = Rejected | Accepted "string option"

text \<open>
  The field is declared \<^verbatim>\<open>dataformat: Optional[str] = <identifier>\<close>: a missing
  field takes the default, \<^verbatim>\<open>null\<close> and every string are taken as they are, anything
  else is no \<^verbatim>\<open>Optional[str]\<close>. No validator of the two classes reads the field.
\<close>

definition optional_str_field :: "string \<Rightarrow> raw_field \<Rightarrow> validation" where
  "optional_str_field dflt raw =
     (case raw of
        Absent \<Rightarrow> Accepted (Some dflt)
      | JNull \<Rightarrow> Accepted None
      | JString s \<Rightarrow> Accepted (Some s)
      | JOther \<Rightarrow> Rejected)"

definition SysDef_dataformat :: "raw_field \<Rightarrow> validation" where
  "SysDef_dataformat raw = optional_str_field SYSDEF_DATAFORMAT_IDENTIFIER raw"

definition SysCfg_dataformat :: "raw_field \<Rightarrow> validation" where
  "SysCfg_dataformat raw = optional_str_field SYSCFG_DATAFORMAT_IDENTIFIER raw"



subsection \<open>\<^verbatim>\<open>SysDef.check_result_enabled_by\<close>\<close>

text \<open>
  The part of a definition document that the validator reads: the three parameter
  groups and the results, a dictionary as the list of its items.
\<close>

record SysDef =
  common_parameters :: "(string \<times> sysdef_value) list option"
  build_parameters :: "(string \<times> sysdef_value) list option"
  run_parameters :: "(string \<times> sysdef_value) list option"
  sysdef_results :: "(string \<times> SysDefResult) list option"

text \<open>\<^verbatim>\<open>self[parameter_group]\<close>.\<close>

fun SysDef_getitem :: "SysDef \<Rightarrow> ParameterGroup \<Rightarrow> (string \<times> sysdef_value) list option" where
  "SysDef_getitem self COMMON = common_parameters self"
| "SysDef_getitem self BUILD = build_parameters self"
| "SysDef_getitem self RUN = run_parameters self"

text \<open>\<^verbatim>\<open>xs[i]\<close> for an index that is not negative.\<close>

definition index :: "'a list \<Rightarrow> nat \<Rightarrow> 'a option" where
  "index xs i = (if i < length xs then Some (xs ! i) else None)"

text \<open>
  One enabler: the group is the second and the name the third piece of the
  reference, counted from the front.
\<close>

definition check_enabler :: "SysDef \<Rightarrow> string \<Rightarrow> error option" where
  "check_enabler self enabler =
     (if \<not> startswith enabler ''#/'' then
        Some (ValueError (quoted ''enabled_by'' @ '' must start with '' @ quoted ''#/''
                @ '' to be a valid JSON pointer: '' @ quoted enabler))
      else
        (let enabler_hierarchy = split_on CHR ''/'' enabler
         in case index enabler_hierarchy 1 of
              None \<Rightarrow> Some IndexError
            | Some g \<Rightarrow>
                (case ParameterGroup_of g of
                   None \<Rightarrow> Some (ValueError (quoted g @ '' is not a valid ParameterGroup''))
                 | Some parameter_group \<Rightarrow>
                     (case index enabler_hierarchy 2 of
                        None \<Rightarrow> Some IndexError
                      | Some parameter_name \<Rightarrow>
                          (case SysDef_getitem self parameter_group of
                             None \<Rightarrow> Some TypeError
                           | Some params \<Rightarrow>
                               (case map_of params parameter_name of
                                  None \<Rightarrow>
                                    Some (ValueError (''Enabling parameter name does not exist: ''
                                            @ quoted enabler))
                                | Some (Simple (VBool b)) \<Rightarrow> None
                                | Some other \<Rightarrow>
                                    Some (ValueError (''Enabling parameter must be of type bool: ''
                                            @ quoted enabler))))))))"

fun check_enablers :: "SysDef \<Rightarrow> string list \<Rightarrow> error option" where
  "check_enablers self [] = None"
| "check_enablers self (enabler # rest) =
     (case check_enabler self enabler of
        Some e \<Rightarrow> Some e
      | None \<Rightarrow> check_enablers self rest)"

fun check_results :: "SysDef \<Rightarrow> SysDefResult list \<Rightarrow> error option" where
  "check_results self [] = None"
| "check_results self (result # rest) =
     (case (case enabled_by result of None \<Rightarrow> None | Some enablers \<Rightarrow> check_enablers self enablers) of
        Some e \<Rightarrow> Some e
      | None \<Rightarrow> check_results self rest)"

text \<open>\<^verbatim>\<open>self.results.values()\<close> of a definition without results raises \<^verbatim>\<open>AttributeError\<close>.\<close>

definition check_result_enabled_by :: "SysDef \<Rightarrow> error option" where
  "check_result_enabled_by self =
     (case sysdef_results self of
        None \<Rightarrow> Some AttributeError
      | Some rs \<Rightarrow> check_results self (map snd rs))"

section \<open>Auxiliary definitions for the properties\<close>

subsection \<open>The three parameter mutations as one operation\<close>

datatype mutation = Update pyvalue | Add "string option" upload | Delete

definition mutate ::
  "os_env \<Rightarrow> Session \<Rightarrow> ParameterGroup \<Rightarrow> string \<Rightarrow> mutation \<Rightarrow> (os_env \<times> Session) outcome" where
  "mutate env session g n m =
     (case m of
        Update v \<Rightarrow>
          (case update session g n v of
             Ok session' \<Rightarrow> Ok (env, session')
           | Raise e session' \<Rightarrow> Raise e (env, session'))
      | Add fname upl \<Rightarrow> add env session g n fname upl
      | Delete \<Rightarrow> delete env session g n)"

text \<open>The state after a mutation, as the specification words it.\<close>

definition state_as_claimed :: "Session \<Rightarrow> ParameterGroup \<Rightarrow> Session \<Rightarrow> bool" where
  "state_as_claimed session g session' =
     ((g \<in> {COMMON, BUILD} \<and> state session \<in> {BUILT, FAILED_BUILD, RAN, FAILED_RUN}
          \<longrightarrow> state session' = (if has_build (system session) then CREATED else BUILT))
      \<and> (g = RUN \<and> state session \<in> {RAN, FAILED_RUN} \<longrightarrow> state session' = BUILT)
      \<and> (\<not> (g \<in> {COMMON, BUILD} \<and> state session \<in> {BUILT, FAILED_BUILD, RAN, FAILED_RUN})
          \<and> \<not> (g = RUN \<and> state session \<in> {RAN, FAILED_RUN})
          \<longrightarrow> state session' = state session))"

subsection \<open>Resolution of a parameter group, as the specification words it\<close>

text \<open>
  The items of a group that may be absent; the non-null override of a name; what
  it means that a parameter is the resolution of a definition entry; and the
  condition that the credential of every URL override of a file parameter is ASCII.
\<close>

definition group_items :: "'a list option \<Rightarrow> 'a list" where
  "group_items g = (case g of None \<Rightarrow> [] | Some xs \<Rightarrow> xs)"

definition override :: "syscfg_group option \<Rightarrow> string \<Rightarrow> pyvalue option" where
  "override cfg n =
     (case map_of (group_items cfg) n of
        None \<Rightarrow> None
      | Some v \<Rightarrow> (if v = VNone then None else Some v))"

definition resolved :: "syscfg_group option \<Rightarrow> string \<times> sysdef_value \<Rightarrow> Parameter \<Rightarrow> bool" where
  "resolved cfg entry p =
     (name p = fst entry \<and>
      (case override cfg (fst entry) of
         Some v \<Rightarrow> pvalue p = v \<and> overwritten p
       | None \<Rightarrow> pvalue p = entry_value (snd entry) \<and> \<not> overwritten p))"

definition is_file_entry :: "sysdef_value \<Rightarrow> bool" where
  "is_file_entry e =
     (case e of Cmplx c \<Rightarrow> cp_meta c = Some (SysDefParameterFile True) | Simple d \<Rightarrow> False)"

definition override_token :: "syscfg_group option \<Rightarrow> string \<Rightarrow> string option" where
  "override_token cfg n =
     (case override cfg n of Some (VUrl u) \<Rightarrow> credentials u | _ \<Rightarrow> None)"

definition token_ascii :: "syscfg_group option \<Rightarrow> string \<times> sysdef_value \<Rightarrow> bool" where
  "token_ascii cfg entry =
     (is_file_entry (snd entry) \<longrightarrow>
        (case override_token cfg (fst entry) of None \<Rightarrow> True | Some c \<Rightarrow> is_ascii c))"

definition credentials_ascii :: "sysdef_group \<Rightarrow> syscfg_group option \<Rightarrow> bool" where
  "credentials_ascii sysdef cfg = list_all (token_ascii cfg) sysdef"

definition names_defined :: "sysdef_group option \<Rightarrow> syscfg_group option \<Rightarrow> bool" where
  "names_defined sysdef cfg =
     list_all (\<lambda>k. k \<in> set (map fst (group_items sysdef))) (map fst (group_items cfg))"

subsection \<open>Availability of a result, as the specification words it\<close>

text \<open>
  The forward steps of the session life cycle. A state is at least \<^verbatim>\<open>BUILT\<close> when
  it is \<^verbatim>\<open>BUILT\<close> or comes after it (lemma \<open>at_least_built_lifecycle\<close>).
\<close>

inductive lifecycle_step :: "State \<Rightarrow> State \<Rightarrow> bool" where
  "lifecycle_step CREATED BUILDING"
| "lifecycle_step BUILDING BUILT"
| "lifecycle_step BUILDING FAILED_BUILD"
| "lifecycle_step BUILT RUNNING"
| "lifecycle_step RUNNING RAN"
| "lifecycle_step RUNNING FAILED_RUN"

definition at_least_built :: "State \<Rightarrow> bool" where
  "at_least_built st = (st \<in> {BUILT, RUNNING, RAN, FAILED_RUN})"

definition resolve_enabler :: "Session \<Rightarrow> string \<Rightarrow> (ParameterGroup \<times> Parameter) option" where
  "resolve_enabler session enable_entry =
     (let parts = split_on CHR ''/'' enable_entry
      in case second_last parts of
           None \<Rightarrow> None
         | Some g \<Rightarrow>
             (case ParameterGroup_of g of
                None \<Rightarrow> None
              | Some parameter_group \<Rightarrow>
                  map_option (Pair parameter_group)
                    (get_parameter (system session) parameter_group (last parts))))"

definition enabler_ok :: "Session \<Rightarrow> string \<Rightarrow> bool" where
  "enabler_ok session enable_entry =
     (case resolve_enabler session enable_entry of
        None \<Rightarrow> False
      | Some (g, p) \<Rightarrow>
          pvalue p = VBool True
          \<and> (g = BUILD \<longrightarrow> at_least_built (state session))
          \<and> (g = RUN \<longrightarrow> state session = RAN))"

subsection \<open>Concrete inputs\<close>

definition env0 :: os_env where
  "env0 = \<lparr>fs = Map.empty, fd_files = Map.empty,
           urlopen = (\<lambda>u h. OtherURLError ''unreachable''),
           SESSIONS_BASE_DIR = ''/srv/sessions''\<rparr>"

definition env_local :: os_env where
  "env_local = \<lparr>fs = [''/data/in.bin'' \<mapsto> ''abc''], fd_files = Map.empty,
           urlopen = (\<lambda>u h. OtherURLError ''unreachable''),
           SESSIONS_BASE_DIR = ''/srv/sessions''\<rparr>"

definition cycles :: Parameter where
  "cycles = \<lparr>name = ''cycles'', pvalue = VInt 500, overwritten = True,
             meta_data = None, file_data = None, default_value = VInt 100\<rparr>"

definition tracing :: Parameter where
  "tracing = \<lparr>name = ''tracing'', pvalue = VBool False, overwritten = False,
              meta_data = None, file_data = None, default_value = VBool False\<rparr>"

text \<open>A session with a build command, the parameter \<open>cycles\<close> in the run group.\<close>

definition session_in :: "State \<Rightarrow> Session" where
  "session_in st =
     \<lparr>session_id = ''s1'',
      system = \<lparr>has_build = True,
                parameters = (\<lambda>g. if g = RUN then [cycles] else []),
                results = Map.empty\<rparr>,
      state = st\<rparr>"

definition file_entry :: sysdef_value where
  "file_entry = Cmplx \<lparr>cp_default_value = VStr ''input/default.bin'',
                       cp_meta = Some (SysDefParameterFile True), cp_description = None\<rparr>"

text \<open>
  The parameter that the constructor builds from \<open>file_entry\<close> and the override
  \<^verbatim>\<open>"/data/in.bin"\<close>.
\<close>

definition pending_local :: Parameter where
  "pending_local =
     \<lparr>name = ''stimuli'', pvalue = VStr ''/data/in.bin'', overwritten = True,
      meta_data = Some (SysDefParameterFile True),
      file_data = Some \<lparr>file_name = None, file_state = Some PENDING,
                        file_path_default = VStr ''input/default.bin'',
                        file_path_origin = VStr ''/data/in.bin'',
                        file_path_local = None, file_path_container = VNone,
                        fd_credentials = None\<rparr>,
      default_value = VStr ''input/default.bin''\<rparr>"

text \<open>A file parameter after an upload, with its staged copy in \<open>env_staged\<close>.\<close>

definition staged_upload :: Parameter where
  "staged_upload =
     \<lparr>name = ''stimuli'', pvalue = VStr ''/data/in.bin'', overwritten = True,
      meta_data = Some (SysDefParameterFile True),
      file_data = Some \<lparr>file_name = Some ''in.bin'', file_state = Some STAGED,
                        file_path_default = VStr ''input/default.bin'',
                        file_path_origin = VStr ''/data/in.bin'',
                        file_path_local = Some ''/srv/sessions/s1/inputs/run_parameters/stimuli/in.bin'',
                        file_path_container = VStr ''/sysapi/inputs/run_parameters/stimuli/in.bin'',
                        fd_credentials = Some ''token''\<rparr>,
      default_value = VStr ''input/default.bin''\<rparr>"

definition env_staged :: os_env where
  "env_staged = \<lparr>fs = [''/srv/sessions/s1/inputs/run_parameters/stimuli/in.bin'' \<mapsto> ''abc''],
           fd_files = Map.empty,
           urlopen = (\<lambda>u h. OtherURLError ''unreachable''),
           SESSIONS_BASE_DIR = ''/srv/sessions''\<rparr>"

definition example_definition :: sysdef_group where
  "example_definition = [(''cycles'', Simple (VInt 100)), (''stimuli'', file_entry)]"

definition url_override :: syscfg_group where
  "url_override =
     [(''stimuli'', VUrl \<lparr>url = ''https://example/data.bin'', credentials = Some [CHR 0xE9]\<rparr>)]"

text \<open>
  A session whose result \<^verbatim>\<open>trace.vcd\<close> is enabled by the boolean build parameter
  \<open>tracing\<close>.
\<close>

definition trace_result :: SysDefResult where
  "trace_result = \<lparr>result_path = ''trace.vcd'', enabled_by = Some [''#/build_parameters/tracing'']\<rparr>"

definition trace_session :: "bool \<Rightarrow> State \<Rightarrow> Session" where
  "trace_session t st =
     \<lparr>session_id = ''s2'',
      system = \<lparr>has_build = True,
                parameters = (\<lambda>g. if g = BUILD then [tracing\<lparr>pvalue := VBool t\<rparr>] else []),
                results = [''trace.vcd'' \<mapsto> trace_result]\<rparr>,
      state = st\<rparr>"

text \<open>An uploaded byte string, and a session whose common group holds a pending file.\<close>

definition upload_abc :: upload where
  "upload_abc = \<lparr>upload_str = ''b'' @ quoted ''abc'', upload_bytes = Some ''abc''\<rparr>"

definition session_with_file :: "State \<Rightarrow> Session" where
  "session_with_file st =
     \<lparr>session_id = ''s1'',
      system = \<lparr>has_build = True,
                parameters = (\<lambda>g. if g = COMMON then [pending_local] else []),
                results = Map.empty\<rparr>,
      state = st\<rparr>"

text \<open>
  A definition whose result \<^verbatim>\<open>trace.vcd\<close> names its enabler with a trailing piece and
  whose result \<^verbatim>\<open>log.txt\<close> has an empty list of enablers, and the session made from it.
\<close>

definition tracing_on :: Parameter where
  "tracing_on = \<lparr>name = ''tracing'', pvalue = VBool True, overwritten = False,
                 meta_data = None, file_data = None, default_value = VBool True\<rparr>"

definition sysdef_traced :: SysDef where
  "sysdef_traced =
     \<lparr>common_parameters = None,
      build_parameters = Some [(''tracing'', Simple (VBool True))],
      run_parameters = None,
      sysdef_results = Some
        [(''trace.vcd'', \<lparr>result_path = ''trace.vcd'',
                          enabled_by = Some [''#/build_parameters/tracing/x'']\<rparr>),
         (''log.txt'', \<lparr>result_path = ''log.txt'', enabled_by = Some []\<rparr>)]\<rparr>"

definition session_traced :: "State \<Rightarrow> Session" where
  "session_traced st =
     \<lparr>session_id = ''s3'',
      system = \<lparr>has_build = True,
                parameters = (\<lambda>g. if g = BUILD then [tracing_on] else []),
                results = map_of (group_items (sysdef_results sysdef_traced))\<rparr>,
      state = st\<rparr>"

section \<open>Properties\<close>

subsection \<open>Helper facts\<close>

lemma has_build_put [simp]: "has_build (put_parameter sys g n p) = has_build sys"
  by (simp add: put_parameter_def)

lemma state_after_change:
  "state (update_state_after_param_change s g) =
     (if g \<in> {COMMON, BUILD} \<and> state s \<in> {BUILT, FAILED_BUILD, RAN, FAILED_RUN}
      then (if has_build (system s) then CREATED else BUILT)
      else if g = RUN \<and> state s \<in> {RAN, FAILED_RUN} then BUILT
      else state s)"
  by (cases g) (auto simp: update_state_after_param_change_def)

text \<open>
  A mutation that returns has replaced a parameter of the system and then applied
  the state update of its group; nothing else of the session changes.
\<close>

lemma mutate_Ok:
  assumes "mutate env session g n m = Ok (env', session')"
  shows "\<exists>sys'. has_build sys' = has_build (system session) \<and>
           session' = update_state_after_param_change (session\<lparr>system := sys'\<rparr>) g"
proof (cases m)
  case (Update v)
  with assms show ?thesis
    by (auto simp: mutate_def update_def split: if_splits option.splits sum.splits outcome.splits
             intro!: exI[of _ "put_parameter (system session) g n _"])
next
  case (Add fname upl)
  with assms show ?thesis
    by (auto simp: mutate_def add_def split: if_splits option.splits outcome.splits prod.splits
             intro!: exI[of _ "put_parameter (system session) g n _"])
next
  case Delete
  with assms show ?thesis
    by (auto simp: mutate_def delete_def split: if_splits option.splits prod.splits
             intro!: exI[of _ "put_parameter (system session) g n _"])
qed

text \<open>A mutation that raises leaves the session state as it was.\<close>

lemma mutate_Raise:
  assumes "mutate env session g n m = Raise e (env', session')"
  shows "state session' = state session"
  using assms
  by (cases m)
     (auto simp: mutate_def update_def add_def delete_def
           split: if_splits option.splits sum.splits outcome.splits prod.splits)

text \<open>\<^verbatim>\<open>update\<close> and \<^verbatim>\<open>add\<close> refuse to work while a command executes.\<close>

lemma locked_update_add:
  assumes "state session \<in> {BUILDING, RUNNING}"
  shows "update session g n v = Raise LockedSessionError session"
    and "add env session g n fname upl = Raise LockedSessionError (env, session)"
  using assms by (auto simp: update_def add_def)

subsection \<open>Preconditions of \<^verbatim>\<open>execute\<close>\<close>

text \<open>
  Claim C1. The precondition check of \<^verbatim>\<open>Session.execute\<close> raises for the command
  \<^verbatim>\<open>build\<close> exactly when the state is \<^verbatim>\<open>BUILDING\<close> or \<^verbatim>\<open>RUNNING\<close>; it raises for
  the command \<^verbatim>\<open>run\<close> exactly when the state is \<^verbatim>\<open>BUILDING\<close> or \<^verbatim>\<open>RUNNING\<close>, or the
  system has a build command and the state is none of \<^verbatim>\<open>BUILT\<close>, \<^verbatim>\<open>RAN\<close>,
  \<^verbatim>\<open>FAILED_RUN\<close>; whatever it raises is an \<^verbatim>\<open>UnexpectedSessionState\<close>, and in all
  other states the check passes.
\<close>

theorem execute_precondition:
  "(execute_precondition_check session ''build'' \<noteq> None \<longleftrightarrow> state session \<in> {BUILDING, RUNNING})
   \<and> (execute_precondition_check session ''run'' \<noteq> None \<longleftrightarrow>
        state session \<in> {BUILDING, RUNNING}
        \<or> (has_build (system session) \<and> state session \<notin> {BUILT, RAN, FAILED_RUN}))
   \<and> (\<forall>command e. execute_precondition_check session command = Some e
         \<longrightarrow> (\<exists>message. e = UnexpectedSessionState message))"
  by (auto simp: execute_precondition_check_def)

theorem execute_precondition_witness:
  "execute_precondition_check (session_in CREATED) ''build'' = None
   \<and> execute_precondition_check (session_in CREATED) ''run'' \<noteq> None
   \<and> execute_precondition_check (session_in BUILT) ''run'' = None
   \<and> execute_precondition_check (session_in RUNNING) ''build'' \<noteq> None"
  using execute_precondition [of "session_in CREATED"] execute_precondition [of "session_in BUILT"]
    execute_precondition [of "session_in RUNNING"]
  by (simp add: session_in_def)

subsection \<open>State regression after a parameter mutation\<close>

text \<open>
  A mutation stores the changed parameter under its name, and the state update
  does not touch the system.
\<close>

lemma find_replace_first:
  "find (\<lambda>q. name q = n) ps = Some p \<Longrightarrow> name p' = n \<Longrightarrow>
     find (\<lambda>q. name q = n) (replace_first n p' ps) = Some p'"
  by (induction ps) auto

lemma get_put_parameter:
  assumes "get_parameter sys g n = Some p" and "name p' = n"
  shows "get_parameter (put_parameter sys g n p') g n = Some p'"
  using assms by (simp add: get_parameter_def put_parameter_def find_replace_first)

lemma get_parameter_name: "get_parameter sys g n = Some p \<Longrightarrow> name p = n"
  by (auto simp: get_parameter_def find_Some_iff)

lemma update_parameter_name: "update_parameter p v = Inr p' \<Longrightarrow> name p' = name p"
  by (auto simp: update_parameter_def split: pyvalue.splits if_splits)

lemma reset_name: "name (snd (reset env p)) = name p"
  by (simp add: reset_def split: option.splits)

lemma process_input_file_name:
  "process_input_file env p sid g fname upl = Ok (env', p') \<Longrightarrow> name p' = name p"
  by (auto simp: process_input_file_def Let_def
        split: option.splits if_splits sum.splits outcome.splits)

lemma state_as_claimed_change:
  "has_build sys' = has_build (system session) \<Longrightarrow>
     state_as_claimed session g (update_state_after_param_change (session\<lparr>system := sys'\<rparr>) g)"
  unfolding state_as_claimed_def state_after_change by (cases g) auto

lemma system_after_change [simp]:
  "system (update_state_after_param_change s g) = system s"
  by (simp add: update_state_after_param_change_def)

text \<open>
  Claim C2. Each of the three mutations returns and stores the changed parameter
  when the parameter exists and its own step succeeds (for \<^verbatim>\<open>update\<close> and \<^verbatim>\<open>add\<close>
  outside \<^verbatim>\<open>BUILDING\<close> and \<^verbatim>\<open>RUNNING\<close>), and the state it leaves is the one of the
  claim: for the group common or build and a state \<^verbatim>\<open>BUILT\<close>, \<^verbatim>\<open>FAILED_BUILD\<close>,
  \<^verbatim>\<open>RAN\<close> or \<^verbatim>\<open>FAILED_RUN\<close> it is \<^verbatim>\<open>CREATED\<close> if the system has a build command and
  \<^verbatim>\<open>BUILT\<close> otherwise; for the group run and a state \<^verbatim>\<open>RAN\<close> or \<^verbatim>\<open>FAILED_RUN\<close> it
  is \<^verbatim>\<open>BUILT\<close>; in every other state it is the state before. A mutation that raises
  leaves the state as it was.
\<close>

theorem state_after_parameter_mutation:
  "(state session \<notin> {BUILDING, RUNNING} \<longrightarrow> get_parameter (system session) g n = Some p
      \<longrightarrow> update_parameter p v = Inr p'
      \<longrightarrow> (\<exists>session'. update session g n v = Ok session'
             \<and> get_parameter (system session') g n = Some p'
             \<and> state_as_claimed session g session'))
   \<and> (state session \<notin> {BUILDING, RUNNING} \<longrightarrow> get_parameter (system session) g n = Some q
      \<longrightarrow> process_input_file env q (session_id session) g fname upl = Ok (env', q')
      \<longrightarrow> (\<exists>session'. add env session g n fname upl = Ok (env', session')
             \<and> get_parameter (system session') g n = Some q'
             \<and> state_as_claimed session g session'))
   \<and> (get_parameter (system session) g n = Some r
      \<longrightarrow> (\<exists>session'. delete env session g n = Ok (fst (reset env r), session')
             \<and> get_parameter (system session') g n = Some (snd (reset env r))
             \<and> state_as_claimed session g session'))
   \<and> (raised (mutate env session g n m) \<noteq> None
      \<longrightarrow> state (snd (left_behind (mutate env session g n m))) = state session)"
proof (intro conjI impI)
  assume "state session \<notin> {BUILDING, RUNNING}" and gp: "get_parameter (system session) g n = Some p"
    and up: "update_parameter p v = Inr p'"
  then have "update session g n v = Ok (update_state_after_param_change
                 (session\<lparr>system := put_parameter (system session) g n p'\<rparr>) g)"
    by (simp add: update_def)
  moreover have "name p' = n"
    using update_parameter_name [OF up] get_parameter_name [OF gp] by simp
  ultimately show "\<exists>session'. update session g n v = Ok session'
             \<and> get_parameter (system session') g n = Some p'
             \<and> state_as_claimed session g session'"
    using get_put_parameter [OF gp] by (simp add: state_as_claimed_change)
next
  assume "state session \<notin> {BUILDING, RUNNING}" and gp: "get_parameter (system session) g n = Some q"
    and pi: "process_input_file env q (session_id session) g fname upl = Ok (env', q')"
  then have "add env session g n fname upl = Ok (env', update_state_after_param_change
                 (session\<lparr>system := put_parameter (system session) g n q'\<rparr>) g)"
    by (simp add: add_def)
  moreover have "name q' = n"
    using process_input_file_name [OF pi] get_parameter_name [OF gp] by simp
  ultimately show "\<exists>session'. add env session g n fname upl = Ok (env', session')
             \<and> get_parameter (system session') g n = Some q'
             \<and> state_as_claimed session g session'"
    using get_put_parameter [OF gp] by (simp add: state_as_claimed_change)
next
  assume gp: "get_parameter (system session) g n = Some r"
  then have "delete env session g n = Ok (fst (reset env r), update_state_after_param_change
                 (session\<lparr>system := put_parameter (system session) g n (snd (reset env r))\<rparr>) g)"
    by (simp add: delete_def split: prod.splits)
  moreover have "name (snd (reset env r)) = n"
    using reset_name [of env r] get_parameter_name [OF gp] by simp
  ultimately show "\<exists>session'. delete env session g n = Ok (fst (reset env r), session')
             \<and> get_parameter (system session') g n = Some (snd (reset env r))
             \<and> state_as_claimed session g session'"
    using get_put_parameter [OF gp] by (simp add: state_as_claimed_change)
next
  assume "raised (mutate env session g n m) \<noteq> None"
  then obtain e env' session' where "mutate env session g n m = Raise e (env', session')"
    by (cases "mutate env session g n m") auto
  then show "state (snd (left_behind (mutate env session g n m))) = state session"
    using mutate_Raise by simp
qed


theorem state_after_parameter_mutation_witness:
  "(\<exists>s'. update (session_in RAN) RUN ''cycles'' (VInt 7) = Ok s' \<and> state s' = BUILT)
   \<and> (\<exists>env' s'. add env0 (session_with_file RAN) COMMON ''stimuli'' (Some ''in.bin'') upload_abc
                     = Ok (env', s') \<and> state s' = CREATED)
   \<and> (\<exists>env' s'. delete env0 (session_in FAILED_RUN) RUN ''cycles'' = Ok (env', s')
                 \<and> state s' = BUILT)
   \<and> state (snd (left_behind (mutate env0 (session_in BUILDING) RUN ''cycles'' (Update (VInt 7)))))
        = BUILDING"
proof -
  have g1: "get_parameter (system (session_in st)) RUN ''cycles'' = Some cycles" for st
    by (simp add: session_in_def get_parameter_def cycles_def)
  have u1: "update_parameter cycles (VInt 7) = Inr (cycles\<lparr>pvalue := VInt 7\<rparr>)"
    by (simp add: update_parameter_def cycles_def)
  have g2: "get_parameter (system (session_with_file st)) COMMON ''stimuli'' = Some pending_local" for st
    by (simp add: session_with_file_def get_parameter_def pending_local_def)
  have "raised (process_input_file env0 pending_local ''s1'' COMMON (Some ''in.bin'') upload_abc) = None"
    by (simp add: process_input_file_def pending_local_def os_path_join_def store_upload_def
          env0_def upload_abc_def write_file_def destination_dir_def join2_def mounted_path_def
          quoted_def CONTAINER_WORKDIR_def)
  then obtain env1 q1 where
    pi: "process_input_file env0 pending_local ''s1'' COMMON (Some ''in.bin'') upload_abc = Ok (env1, q1)"
    by (cases "process_input_file env0 pending_local ''s1'' COMMON (Some ''in.bin'') upload_abc") auto
  have sid: "session_id (session_with_file st) = ''s1''" for st
    by (simp add: session_with_file_def)
  have st: "state (session_in st) = st" "has_build (system (session_in st))"
    "state (session_with_file st) = st" "has_build (system (session_with_file st))" for st
    by (simp_all add: session_in_def session_with_file_def)
  have a: "\<exists>s'. update (session_in RAN) RUN ''cycles'' (VInt 7) = Ok s' \<and> state s' = BUILT"
  proof -
    have "state (session_in RAN) \<notin> {BUILDING, RUNNING}" by (simp add: st)
    from state_after_parameter_mutation [THEN conjunct1, rule_format, OF this g1 u1]
    obtain s' where "update (session_in RAN) RUN ''cycles'' (VInt 7) = Ok s'"
      and "state_as_claimed (session_in RAN) RUN s'" by blast
    then show ?thesis by (auto simp: state_as_claimed_def st)
  qed
  have b: "\<exists>env' s'. add env0 (session_with_file RAN) COMMON ''stimuli'' (Some ''in.bin'') upload_abc
                     = Ok (env', s') \<and> state s' = CREATED"
  proof -
    have "state (session_with_file RAN) \<notin> {BUILDING, RUNNING}" by (simp add: st)
    from state_after_parameter_mutation [THEN conjunct2, THEN conjunct1, rule_format, OF this g2]
      pi sid
    obtain s' where "add env0 (session_with_file RAN) COMMON ''stimuli'' (Some ''in.bin'') upload_abc
                       = Ok (env1, s')"
      and "state_as_claimed (session_with_file RAN) COMMON s'" by metis
    then show ?thesis by (auto simp: state_as_claimed_def st)
  qed
  have c: "\<exists>env' s'. delete env0 (session_in FAILED_RUN) RUN ''cycles'' = Ok (env', s')
                 \<and> state s' = BUILT"
  proof -
    from state_after_parameter_mutation
           [THEN conjunct2, THEN conjunct2, THEN conjunct1, rule_format, OF g1]
    obtain s' where "delete env0 (session_in FAILED_RUN) RUN ''cycles'' = Ok (fst (reset env0 cycles), s')"
      and "state_as_claimed (session_in FAILED_RUN) RUN s'" by blast
    then show ?thesis by (auto simp: state_as_claimed_def st)
  qed
  have "raised (mutate env0 (session_in BUILDING) RUN ''cycles'' (Update (VInt 7))) \<noteq> None"
    by (simp add: mutate_def update_def st)
  from state_after_parameter_mutation
         [THEN conjunct2, THEN conjunct2, THEN conjunct2, rule_format, OF this]
  have d: "state (snd (left_behind (mutate env0 (session_in BUILDING) RUN ''cycles'' (Update (VInt 7)))))
        = BUILDING"
    by (simp add: st)
  from a b c d show ?thesis by blast
qed

subsection \<open>Mutations while a command executes\<close>

text \<open>
  Claim C3. While the state is \<^verbatim>\<open>BUILDING\<close> or \<^verbatim>\<open>RUNNING\<close>, \<^verbatim>\<open>update\<close> and \<^verbatim>\<open>add\<close>
  raise \<^verbatim>\<open>LockedSessionError\<close> (lemma \<open>locked_update_add\<close>), but \<^verbatim>\<open>Session.delete\<close>
  has no such check: on a session in state \<^verbatim>\<open>BUILDING\<close> whose run parameter
  \<open>cycles\<close> holds 500 with default 100, the call \<^verbatim>\<open>delete(RUN, "cycles")\<close> returns
  without an exception and the parameter holds 100 afterwards.
\<close>

theorem delete_while_building:
  "state (session_in BUILDING) = BUILDING
   \<and> map pvalue (parameters (system (session_in BUILDING)) RUN) = [VInt 500]
   \<and> raised (delete env0 (session_in BUILDING) RUN ''cycles'') = None
   \<and> map pvalue (parameters (system (snd (left_behind
          (delete env0 (session_in BUILDING) RUN ''cycles'')))) RUN) = [VInt 100]"
  by (simp add: session_in_def cycles_def delete_def get_parameter_def reset_def put_parameter_def
        update_state_after_param_change_def)

subsection \<open>Defaults of constrained parameters\<close>

text \<open>
  What an accepted default is sure to satisfy: it is an instance of the type of the
  first enumerated value and equal to one of the values in the sense of \<^verbatim>\<open>==\<close>, or
  it is a number between the bounds of the range.
\<close>

lemma check_default_value_accepts:
  assumes "check_default_value c = Inr c'"
  shows "c' = c"
    and "cp_meta c = Some (SysDefParameterEnum vs) \<Longrightarrow>
           py_in (cp_default_value c) (values_list vs)
           \<and> (\<exists>t. type_of (hd (values_list vs)) = Some t \<and> isinstance (cp_default_value c) t)"
    and "cp_meta c = Some (SysDefParameterRange lower upper) \<Longrightarrow>
           (\<exists>d. num_of (cp_default_value c) = Some d \<and> float_le (num_value lower) d
                 \<and> float_le d (num_value upper))"
  using assms
  by (auto simp: check_default_value_def split: option.splits meta.splits list.splits if_splits)

text \<open>
  Claim C5. The validator of a complex parameter compares the type of the default
  with the type of the first enumerated value by \<^verbatim>\<open>isinstance\<close>, and \<^verbatim>\<open>bool\<close> is a
  subclass of \<^verbatim>\<open>int\<close>: the default \<^verbatim>\<open>true\<close> with the enumerated values \<^verbatim>\<open>[1, 2]\<close>
  passes the validation, although the default is a \<^verbatim>\<open>bool\<close>, the values are
  \<^verbatim>\<open>int\<close>s and \<^verbatim>\<open>true\<close> is none of them.
\<close>

theorem enum_default_bool_among_ints:
  "check_default_value \<lparr>cp_default_value = VBool True,
       cp_meta = Some (SysDefParameterEnum (IntValues [1, 2])), cp_description = None\<rparr>
     = Inr \<lparr>cp_default_value = VBool True,
            cp_meta = Some (SysDefParameterEnum (IntValues [1, 2])), cp_description = None\<rparr>
   \<and> type_of (VBool True) = Some TBool
   \<and> map type_of (values_list (IntValues [1, 2])) = [Some TInt, Some TInt]
   \<and> VBool True \<notin> set (values_list (IntValues [1, 2]))"
  by (simp add: check_default_value_def py_in_def py_eq_def)

subsection \<open>Staging a pending file\<close>

text \<open>
  The constructor never sets a file name, and a pending file without a name
  cannot be staged from a local origin. The other two branches of \<^verbatim>\<open>stage_file\<close>
  do what they are meant to do: an origin of another form and an HTTP error both
  raise \<^verbatim>\<open>FileNotFoundError\<close> and leave the parameter as it was, and a fetched URL
  with a last path segment is written below the input directory and is \<^verbatim>\<open>STAGED\<close>
  under the name of that segment.
\<close>

lemma parse_file_parameter_no_name:
  assumes "parse_file_parameter p b d = Inr p'" and "file_data p = None" and "file_data p' = Some fd"
  shows "file_name fd = None"
  using assms
  by (auto simp: parse_file_parameter_def Let_def split: if_splits pyvalue.splits option.splits sum.splits)

lemma Parameter_init_no_name:
  assumes "Parameter_init n v e ow = Inr p" and "file_data p = Some fd"
  shows "file_name fd = None"
proof (cases e)
  case (Simple d)
  with assms show ?thesis by (auto simp: Parameter_init_def)
next
  case (Cmplx c)
  show ?thesis
  proof (cases "cp_meta c")
    case None
    with assms Cmplx show ?thesis by (auto simp: Parameter_init_def)
  next
    case (Some m)
    show ?thesis
    proof (cases m)
      case (SysDefParameterFile is_file)
      with assms Cmplx Some have
        "parse_file_parameter (\<lparr>name = n, pvalue = (if \<not> ow then cp_default_value c else v),
                    overwritten = ow, meta_data = None, file_data = None,
                    default_value = cp_default_value c\<rparr>\<lparr>meta_data := Some m\<rparr>) is_file (cp_default_value c) = Inr p"
        by (simp add: Parameter_init_def)
      from parse_file_parameter_no_name [OF this _ assms(2)] show ?thesis by simp
    qed (use assms Cmplx Some in \<open>auto simp: Parameter_init_def\<close>)
  qed
qed

lemma stage_file_local_without_name:
  assumes "file_data p = Some fd" and "file_state fd = Some PENDING"
    and "os_path_isfile env (file_path_origin fd) = Inr True" and "file_name fd = None"
  shows "stage_file env p sid grp = Raise TypeError (env, p)"
  using assms by (simp add: stage_file_def stage_local_def os_path_join_def)

lemma stage_file_other_origin:
  assumes "file_data p = Some fd" and "file_state fd = Some PENDING"
    and "file_path_origin fd = VStr origin" and "fs env origin = None" and "\<not> is_web_url origin"
  shows "\<exists>message. stage_file env p sid grp = Raise (FileNotFoundError message) (env, p)"
  using assms by (simp add: stage_file_def)

lemma stage_file_http_error:
  assumes "file_data p = Some fd" and "file_state fd = Some PENDING"
    and "file_path_origin fd = VStr origin" and "fs env origin = None" and "is_web_url origin"
    and "urlopen env origin (bearer (fd_credentials fd)) = HTTPError exc"
  shows "\<exists>message. stage_file env p sid grp = Raise (FileNotFoundError message) (env, p)"
  using assms by (simp add: stage_file_def stage_url_def)

lemma stage_file_fetched:
  assumes "file_data p = Some fd" and "file_state fd = Some PENDING"
    and "file_path_origin fd = VStr origin" and "fs env origin = None" and "is_web_url origin"
    and "urlopen env origin (bearer (fd_credentials fd)) = Fetched content"
    and "last (split_on CHR ''/'' origin) \<noteq> []"
  shows "\<exists>env' p' fd'. stage_file env p sid grp = Ok (env', p')
           \<and> file_data p' = Some fd' \<and> file_state fd' = Some STAGED
           \<and> file_name fd' = Some (last (split_on CHR ''/'' origin))
           \<and> (\<exists>l. file_path_local fd' = Some l \<and> fs env' l = Some content)"
proof -
  let ?fname = "last (split_on CHR ''/'' origin)"
  let ?dest = "join2 (destination_dir env sid grp (name p)) ?fname"
  have ne: "?dest \<noteq> []" and nl: "last ?dest \<noteq> CHR ''/''"
  proof -
    have "CHR ''/'' \<notin> set ?fname"
    proof -
      have "\<forall>x \<in> set (split_on CHR ''/'' s). CHR ''/'' \<notin> set x" for s
        by (induction s) (auto split: list.splits)
      moreover have "split_on CHR ''/'' origin \<noteq> []" by (cases origin) (auto split: list.splits)
      ultimately show ?thesis by (meson last_in_set)
    qed
    with assms(7) have l: "last ?fname \<noteq> CHR ''/''" and h: "hd ?fname \<noteq> CHR ''/''"
      by (metis last_in_set, metis hd_in_set)
    from assms(7) h show "?dest \<noteq> []" by (simp add: join2_def)
    from assms(7) h l show "last ?dest \<noteq> CHR ''/''" by (simp add: join2_def)
  qed
  then have w: "write_file env ?dest content = Inr (env\<lparr>fs := (fs env)(?dest \<mapsto> content)\<rparr>)"
    by (simp add: write_file_def)
  show ?thesis
    using assms(1-6) w
    by (simp add: stage_file_def stage_url_def Let_def mounted_path_def os_path_join_def)
qed

text \<open>
  Claim C6. A file parameter that the constructor builds from an override with a
  local path is \<^verbatim>\<open>PENDING\<close> and has no file name. When the path is an existing
  regular file, \<^verbatim>\<open>stage_file\<close> joins the input directory with that missing name:
  it raises \<^verbatim>\<open>TypeError\<close>, copies nothing, and the parameter stays \<^verbatim>\<open>PENDING\<close>.
\<close>

theorem stage_local_file_raises:
  "Parameter_init ''stimuli'' (VStr ''/data/in.bin'') file_entry True = Inr pending_local
   \<and> os_path_isfile env_local (VStr ''/data/in.bin'') = Inr True
   \<and> stage_file env_local pending_local ''s1'' RUN = Raise TypeError (env_local, pending_local)
   \<and> map_option file_state (file_data pending_local) = Some (Some PENDING)"
  by (simp add: Parameter_init_def file_entry_def parse_file_parameter_def pending_local_def
        env_local_def stage_file_def stage_local_def os_path_join_def)

subsection \<open>Reset\<close>

text \<open>
  Claim C8. \<^verbatim>\<open>reset\<close> is idempotent: a second call changes neither the parameter nor
  the files. It restores the recorded default: a parameter without file data gets
  its default value; a file parameter is in state \<^verbatim>\<open>DEFAULT\<close> with origin,
  credentials, local path and file name discarded and with the default path of the
  definition as container path.
\<close>

theorem reset_idempotent:
  "(case reset env p of (env1, p1) \<Rightarrow>
      reset env1 p1 = (env1, p1)
      \<and> (file_data p = None \<longrightarrow> pvalue p1 = default_value p)
      \<and> (\<forall>fd. file_data p = Some fd \<longrightarrow>
            (\<exists>fd'. file_data p1 = Some fd'
                \<and> file_state fd' = Some DEFAULT
                \<and> file_path_origin fd' = VNone
                \<and> fd_credentials fd' = None
                \<and> file_path_local fd' = None
                \<and> file_name fd' = None
                \<and> file_path_container fd' = file_path_default fd
                \<and> file_path_default fd' = file_path_default fd)))"
  by (auto simp: reset_def os_remove_def split: option.splits)

theorem reset_idempotent_witness:
  "(case reset env_staged staged_upload of (env1, p1) \<Rightarrow>
      reset env1 p1 = (env1, p1)
      \<and> fs env1 ''/srv/sessions/s1/inputs/run_parameters/stimuli/in.bin'' = None
      \<and> map_option file_state (file_data p1) = Some (Some DEFAULT)
      \<and> map_option file_path_container (file_data p1) = Some (VStr ''input/default.bin''))
   \<and> (case reset env0 cycles of (env1, p1) \<Rightarrow> reset env1 p1 = (env1, p1) \<and> pvalue p1 = VInt 100)"
  using reset_idempotent [where env = env_staged and p = staged_upload]
    reset_idempotent [where env = env0 and p = cycles]
  by (auto simp: reset_def os_remove_def env_staged_def staged_upload_def cycles_def)

subsection \<open>The version tag of a document\<close>

text \<open>
  The field of a definition or a configuration is accepted with any string and
  with \<^verbatim>\<open>null\<close>, and a document without the field gets the identifier of the code.
\<close>

lemma dataformat_field:
  "SysDef_dataformat (JString s) = Accepted (Some s)
   \<and> SysCfg_dataformat (JString s) = Accepted (Some s)
   \<and> SysDef_dataformat JNull = Accepted None
   \<and> SysCfg_dataformat JNull = Accepted None
   \<and> SysDef_dataformat Absent = Accepted (Some ''sysdef:0.4'')
   \<and> SysCfg_dataformat Absent = Accepted (Some ''syscfg:0.3'')
   \<and> SysDef_dataformat JOther = Rejected
   \<and> SysCfg_dataformat JOther = Rejected"
  by (simp add: SysDef_dataformat_def SysCfg_dataformat_def optional_str_field_def
        SYSDEF_DATAFORMAT_IDENTIFIER_def SYSCFG_DATAFORMAT_IDENTIFIER_def)


subsection \<open>Resolution of a parameter group\<close>

lemma select_value_override:
  "select_value cfg n e =
     (case override cfg n of Some v \<Rightarrow> (v, True) | None \<Rightarrow> (entry_value e, False))"
  by (auto simp: select_value_def override_def group_items_def split: option.splits pyvalue.splits)

lemma parse_file_parameter_fields:
  assumes "parse_file_parameter p b d = Inr p'"
  shows "name p' = name p \<and> pvalue p' = pvalue p \<and> overwritten p' = overwritten p"
  using assms
  by (auto simp: parse_file_parameter_def Let_def split: if_splits pyvalue.splits option.splits sum.splits)

lemma Parameter_init_fields:
  assumes "Parameter_init n v e ow = Inr p"
  shows "name p = n \<and> overwritten p = ow
         \<and> pvalue p = (case e of Simple d \<Rightarrow> v | Cmplx c \<Rightarrow> if ow then v else cp_default_value c)"
proof (cases e)
  case (Simple d)
  with assms show ?thesis by (auto simp: Parameter_init_def)
next
  case (Cmplx c)
  show ?thesis
  proof (cases "cp_meta c")
    case None
    with assms Cmplx show ?thesis by (auto simp: Parameter_init_def)
  next
    case (Some m)
    show ?thesis
    proof (cases m)
      case (SysDefParameterFile is_file)
      with assms Cmplx Some have
        "parse_file_parameter (\<lparr>name = n, pvalue = (if \<not> ow then cp_default_value c else v),
                    overwritten = ow, meta_data = None, file_data = None,
                    default_value = cp_default_value c\<rparr>\<lparr>meta_data := Some m\<rparr>) is_file (cp_default_value c) = Inr p"
        by (simp add: Parameter_init_def)
      from parse_file_parameter_fields [OF this] Cmplx show ?thesis by simp
    qed (use assms Cmplx Some in \<open>auto simp: Parameter_init_def\<close>)
  qed
qed

lemma parse_file_parameter_succeeds:
  assumes "overwritten p \<longrightarrow> (\<forall>u c. pvalue p = VUrl u \<longrightarrow> credentials u = Some c \<longrightarrow> is_ascii c)"
  shows "\<exists>p'. parse_file_parameter p b d = Inr p'"
  using assms
  by (auto simp: parse_file_parameter_def Let_def bytes_ascii_def split: pyvalue.splits option.splits)

lemma Parameter_init_succeeds:
  assumes "is_file_entry e \<longrightarrow> ow \<longrightarrow> (\<forall>u c. v = VUrl u \<longrightarrow> credentials u = Some c \<longrightarrow> is_ascii c)"
  shows "\<exists>p. Parameter_init n v e ow = Inr p"
proof (cases e)
  case (Simple d)
  then show ?thesis by (simp add: Parameter_init_def)
next
  case (Cmplx c)
  show ?thesis
  proof (cases "cp_meta c")
    case None
    with Cmplx show ?thesis by (simp add: Parameter_init_def)
  next
    case (Some m)
    show ?thesis
    proof (cases m)
      case (SysDefParameterFile is_file)
      show ?thesis
      proof (cases is_file)
        case True
        with Cmplx Some SysDefParameterFile have "is_file_entry e" by (simp add: is_file_entry_def)
        with assms have "ow \<longrightarrow> (\<forall>u c. v = VUrl u \<longrightarrow> credentials u = Some c \<longrightarrow> is_ascii c)" by simp
        then have "\<exists>p'. parse_file_parameter
                (\<lparr>name = n, pvalue = (if \<not> ow then cp_default_value c else v),
                    overwritten = ow, meta_data = None, file_data = None,
                    default_value = cp_default_value c\<rparr>\<lparr>meta_data := Some m\<rparr>) is_file (cp_default_value c) = Inr p'"
          by (intro parse_file_parameter_succeeds) auto
        with Cmplx Some SysDefParameterFile show ?thesis by (simp add: Parameter_init_def)
      next
        case False
        with Cmplx Some SysDefParameterFile show ?thesis
          by (simp add: Parameter_init_def parse_file_parameter_def)
      qed
    qed (use Cmplx Some in \<open>simp_all add: Parameter_init_def\<close>)
  qed
qed

lemma resolve_entry:
  assumes "token_ascii cfg (n, e)" and "select_value cfg n e = (v, ow)"
  shows "\<exists>p. Parameter_init n v e ow = Inr p \<and> resolved cfg (n, e) p"
proof -
  have sel: "(v, ow) = (case override cfg n of Some w \<Rightarrow> (w, True) | None \<Rightarrow> (entry_value e, False))"
    using assms(2) by (simp add: select_value_override)
  have "is_file_entry e \<longrightarrow> ow \<longrightarrow> (\<forall>u c. v = VUrl u \<longrightarrow> credentials u = Some c \<longrightarrow> is_ascii c)"
    using assms(1) sel
    by (auto simp: token_ascii_def override_token_def split: option.splits)
  from Parameter_init_succeeds [OF this] obtain p where p: "Parameter_init n v e ow = Inr p" by blast
  from Parameter_init_fields [OF p] sel have "resolved cfg (n, e) p"
    by (cases e) (auto simp: resolved_def entry_value_def split: option.splits)
  with p show ?thesis by blast
qed

lemma parse_entries_succeeds:
  assumes "distinct (map fst sysdef)" and "set (map fst sysdef) \<inter> set seen = {}"
    and "credentials_ascii sysdef cfg"
  shows "\<exists>ps. parse_entries sysdef cfg seen = Inr ps \<and> list_all2 (resolved cfg) sysdef ps"
  using assms
proof (induction sysdef arbitrary: seen)
  case Nil
  show ?case by simp
next
  case (Cons entry rest)
  obtain n e where entry: "entry = (n, e)" by (cases entry)
  obtain v ow where sel: "select_value cfg n e = (v, ow)" by (cases "select_value cfg n e")
  from Cons.prems entry have fresh: "n \<notin> set seen" by auto
  from Cons.prems entry have "token_ascii cfg (n, e)" by (simp add: credentials_ascii_def)
  from resolve_entry [OF this sel] obtain p where
    p: "Parameter_init n v e ow = Inr p" and rp: "resolved cfg (n, e) p" by blast
  have "distinct (map fst rest)" "set (map fst rest) \<inter> set (seen @ [n]) = {}"
    "credentials_ascii rest cfg"
    using Cons.prems entry by (auto simp: credentials_ascii_def)
  from Cons.IH [OF this] obtain ps where
    ps: "parse_entries rest cfg (seen @ [n]) = Inr ps" and rps: "list_all2 (resolved cfg) rest ps"
    by blast
  from fresh sel p ps have "parse_entries (entry # rest) cfg seen = Inr (p # ps)"
    by (simp add: entry)
  with rp rps entry show ?case by simp
qed

lemma check_syscfg_names_None:
  "check_syscfg_names ks sysdef = None \<longleftrightarrow> list_all (\<lambda>k. k \<in> set (map fst sysdef)) ks"
  by (induction ks) (auto simp: map_of_eq_None_iff image_iff)

lemma check_syscfg_names_Some:
  "check_syscfg_names ks sysdef = Some err \<Longrightarrow> \<exists>message. err = ValueError message"
  by (induction ks) (auto split: if_splits)


text \<open>
  Claim C4, as the code has it. Let the names of the definition group be distinct
  (it is a dictionary). If every name of the configuration group is a name of the
  definition group and every credential that overrides a file parameter is ASCII,
  the resolution succeeds with one parameter per definition entry, in order: it
  has the non-null override as value and \<^verbatim>\<open>overwritten = true\<close>, or the default of the
  definition and \<^verbatim>\<open>overwritten = false\<close> when there is no non-null override. If a
  name of the configuration group is missing in the definition group, the
  resolution raises \<^verbatim>\<open>ValueError\<close>.
\<close>

theorem parse_parameter_group_resolution:
  assumes "distinct (map fst (group_items sysdef))"
  shows "(names_defined sysdef cfg \<and> credentials_ascii (group_items sysdef) cfg \<longrightarrow>
            (\<exists>ps. parse_parameter_group sysdef cfg = Inr ps
                 \<and> list_all2 (resolved cfg) (group_items sysdef) ps))
       \<and> (\<not> names_defined sysdef cfg \<longrightarrow>
            (\<exists>message. parse_parameter_group sysdef cfg = Inl (ValueError message)))"
proof (cases cfg)
  case None
  note cfg = this
  have nd: "names_defined sysdef cfg" by (simp add: cfg names_defined_def group_items_def)
  show ?thesis
  proof (cases sysdef)
    case None
    with cfg nd show ?thesis by (simp add: parse_parameter_group_def group_items_def)
  next
    case (Some d)
    with assms have "distinct (map fst d)" by (simp add: group_items_def)
    from parse_entries_succeeds [OF this, of "[]" cfg] cfg Some nd show ?thesis
      by (auto simp: parse_parameter_group_def group_items_def)
  qed
next
  case (Some c)
  note cfg = this
  show ?thesis
  proof (cases sysdef)
    case None
    have "names_defined sysdef cfg \<longleftrightarrow> c = []"
      by (cases c) (simp_all add: None cfg names_defined_def group_items_def)
    with cfg None show ?thesis
      by (auto simp: parse_parameter_group_def group_items_def)
  next
    case (Some d)
    with assms have dist: "distinct (map fst d)" by (simp add: group_items_def)
    have nd: "names_defined sysdef cfg \<longleftrightarrow> check_syscfg_names (map fst c) d = None"
      by (simp add: Some cfg names_defined_def group_items_def check_syscfg_names_None)
    show ?thesis
    proof (cases "check_syscfg_names (map fst c) d")
      case None
      from parse_entries_succeeds [OF dist, of "[]" cfg] cfg Some nd None show ?thesis
        by (auto simp: parse_parameter_group_def group_items_def)
    next
      case (Some err)
      from check_syscfg_names_Some [OF this] obtain message where "err = ValueError message" ..
      with cfg \<open>sysdef = Some d\<close> nd Some show ?thesis
        by (simp add: parse_parameter_group_def)
    qed
  qed
qed

theorem parse_parameter_group_resolution_witness:
  "(\<exists>ps. parse_parameter_group (Some example_definition) (Some [(''cycles'', VInt 500)]) = Inr ps
        \<and> map name ps = [''cycles'', ''stimuli'']
        \<and> map pvalue ps = [VInt 500, VStr ''input/default.bin'']
        \<and> map overwritten ps = [True, False])
   \<and> (\<exists>message. parse_parameter_group (Some example_definition) (Some [(''speed'', VInt 3)])
                   = Inl (ValueError message))"
proof -
  let ?cfg = "Some [(''cycles'', VInt 500)]"
  have d: "distinct (map fst (group_items (Some example_definition)))"
    by (simp add: group_items_def example_definition_def)
  have n: "names_defined (Some example_definition) ?cfg"
    by (simp add: names_defined_def group_items_def example_definition_def)
  have c: "credentials_ascii (group_items (Some example_definition)) ?cfg"
    by (simp add: credentials_ascii_def token_ascii_def override_token_def
          override_def group_items_def example_definition_def)
  have m: "\<not> names_defined (Some example_definition) (Some [(''speed'', VInt 3)])"
    by (simp add: names_defined_def group_items_def example_definition_def)
  from parse_parameter_group_resolution [OF d, of ?cfg] n c
  obtain ps where ps: "parse_parameter_group (Some example_definition) ?cfg = Inr ps"
    and r: "list_all2 (resolved ?cfg) (group_items (Some example_definition)) ps"
    by blast
  from r obtain p q where pq: "ps = [p, q]"
    and rp: "resolved ?cfg (''cycles'', Simple (VInt 100)) p"
    and rq: "resolved ?cfg (''stimuli'', file_entry) q"
    by (auto simp: group_items_def example_definition_def list_all2_Cons1)
  from rp have "name p = ''cycles'' \<and> pvalue p = VInt 500 \<and> overwritten p"
    by (simp add: resolved_def override_def group_items_def)
  moreover from rq have "name q = ''stimuli'' \<and> pvalue q = VStr ''input/default.bin'' \<and> \<not> overwritten q"
    by (simp add: resolved_def override_def group_items_def entry_value_def file_entry_def)
  ultimately have first: "\<exists>ps. parse_parameter_group (Some example_definition) ?cfg = Inr ps
        \<and> map name ps = [''cycles'', ''stimuli'']
        \<and> map pvalue ps = [VInt 500, VStr ''input/default.bin'']
        \<and> map overwritten ps = [True, False]"
    using ps pq by simp
  from parse_parameter_group_resolution [OF d, of "Some [(''speed'', VInt 3)]"] m
  have "\<exists>message. parse_parameter_group (Some example_definition) (Some [(''speed'', VInt 3)])
                   = Inl (ValueError message)" by blast
  with first show ?thesis by blast
qed


lemma not_ascii_e9: "\<not> is_ascii [CHR 0xE9]"
  by (simp add: is_ascii_def)

lemma init_e9:
  "Parameter_init ''stimuli''
     (VUrl \<lparr>url = ''https://example/data.bin'', credentials = Some [CHR 0xE9]\<rparr>) file_entry True
     = Inl UnicodeEncodeError"
  by (simp add: Parameter_init_def file_entry_def parse_file_parameter_def bytes_ascii_def
        not_ascii_e9)

text \<open>
  Claim C4 as it was stated fails: the only name of the configuration is defined,
  but the credential of the URL override holds the code point 233, which
  \<^verbatim>\<open>bytes(..., 'ascii')\<close> in the constructor refuses.
\<close>

theorem non_ascii_credentials_rejected:
  "names_defined (Some example_definition) (Some url_override)
   \<and> parse_parameter_group (Some example_definition) (Some url_override) = Inl UnicodeEncodeError"
proof -
  have "names_defined (Some example_definition) (Some url_override)"
    by (simp add: names_defined_def group_items_def example_definition_def url_override_def)
  moreover have "check_syscfg_names (map fst url_override) example_definition = None"
    by (simp add: example_definition_def url_override_def)
  moreover have "parse_entries example_definition (Some url_override) [] = Inl UnicodeEncodeError"
  proof -
    have s1: "select_value (Some url_override) ''cycles'' (Simple (VInt 100)) = (VInt 100, False)"
      by (simp add: select_value_def url_override_def entry_value_def)
    have s2: "select_value (Some url_override) ''stimuli'' file_entry
                = (VUrl \<lparr>url = ''https://example/data.bin'', credentials = Some [CHR 0xE9]\<rparr>, True)"
      by (simp add: select_value_def url_override_def)
    have i1: "Parameter_init ''cycles'' (VInt 100) (Simple (VInt 100)) False
                = Inr \<lparr>name = ''cycles'', pvalue = VInt 100, overwritten = False, meta_data = None,
                       file_data = None, default_value = VInt 100\<rparr>"
      by (simp add: Parameter_init_def)
    show ?thesis by (simp add: example_definition_def s1 s2 i1 init_e9)
  qed
  ultimately show ?thesis by (simp add: parse_parameter_group_def)
qed

subsection \<open>Availability of a result\<close>

lemma at_least_built_lifecycle: "at_least_built st \<longleftrightarrow> lifecycle_step\<^sup>*\<^sup>* BUILT st"
proof
  assume "at_least_built st"
  then consider "st = BUILT" | "st = RUNNING" | "st = RAN" | "st = FAILED_RUN"
    by (auto simp: at_least_built_def)
  then show "lifecycle_step\<^sup>*\<^sup>* BUILT st"
  proof cases
    case 1 then show ?thesis by simp
  next
    case 2 then show ?thesis by (auto intro: lifecycle_step.intros)
  next
    case 3 then show ?thesis
      by (auto intro: lifecycle_step.intros rtranclp.rtrancl_into_rtrancl [where b = RUNNING])
  next
    case 4 then show ?thesis
      by (auto intro: lifecycle_step.intros rtranclp.rtrancl_into_rtrancl [where b = RUNNING])
  qed
next
  assume "lifecycle_step\<^sup>*\<^sup>* BUILT st"
  then show "at_least_built st"
    by (induction rule: rtranclp_induct)
       (auto simp: at_least_built_def elim: lifecycle_step.cases)
qed

lemma ran_contains: "str_contains (State_value RAN) (State_value st) \<longleftrightarrow> st = RAN"
  by (cases st) (simp_all add: startswith_def)

lemma check_entry_unresolved:
  assumes "resolve_enabler session e = None"
  shows "\<exists>x. check_enable_entry session rn e = Inl x"
proof (cases "second_last (split_on CHR ''/'' e)")
  case None
  then show ?thesis by (simp add: check_enable_entry_def Let_def)
next
  case (Some gs)
  note gs = this
  show ?thesis
  proof (cases "ParameterGroup_of gs")
    case None
    with gs show ?thesis by (simp add: check_enable_entry_def Let_def)
  next
    case (Some g)
    with gs assms have "get_parameter (system session) g (last (split_on CHR ''/'' e)) = None"
      by (simp add: resolve_enabler_def Let_def)
    with gs Some show ?thesis by (simp add: check_enable_entry_def Let_def)
  qed
qed

lemma check_entry_resolved:
  assumes "resolve_enabler session e = Some (g, p)"
  shows "check_enable_entry session rn e =
           (case pvalue p of
              VBool b \<Rightarrow>
                if \<not> b then Inr (Some (not_true_message rn (name p)))
                else if g = BUILD \<and> state session \<notin> {BUILT, RUNNING, RAN, FAILED_RUN}
                then Inr (Some (not_available_state rn (state session) BUILT))
                else if g = RUN \<and> state session \<noteq> RAN
                then Inr (Some (not_available_state rn (state session) RAN))
                else Inr None
            | _ \<Rightarrow> Inr (Some (not_boolean_message rn (name p))))"
proof -
  from assms obtain gs where gs: "second_last (split_on CHR ''/'' e) = Some gs"
    and g: "ParameterGroup_of gs = Some g"
    and p: "get_parameter (system session) g (last (split_on CHR ''/'' e)) = Some p"
    by (auto simp: resolve_enabler_def Let_def split: option.splits)
  show ?thesis
    unfolding check_enable_entry_def Let_def gs g p ran_contains option.case
    by (rule refl)
qed

lemma check_entry_iff:
  "check_enable_entry session rn e = Inr None \<longleftrightarrow> enabler_ok session e"
proof (cases "resolve_enabler session e")
  case None
  with check_entry_unresolved [OF None, of rn] show ?thesis
    by (auto simp: enabler_ok_def)
next
  case (Some gp)
  obtain g p where gp: "gp = (g, p)" by (cases gp)
  show ?thesis
  proof (cases "pvalue p")
    case (VBool b)
    with Some gp show ?thesis
      by (simp add: check_entry_resolved [of session e g p rn] enabler_ok_def at_least_built_def)
  qed (use Some gp in \<open>simp_all add: check_entry_resolved [of session e g p rn] enabler_ok_def\<close>)
qed

lemma check_entry_total:
  assumes "resolve_enabler session e \<noteq> None"
  shows "\<exists>r. check_enable_entry session rn e = Inr r"
proof -
  from assms obtain g p where r: "resolve_enabler session e = Some (g, p)" by auto
  show ?thesis
    by (cases "pvalue p") (simp_all add: check_entry_resolved [OF r])
qed

lemma check_entry_nonbool:
  assumes "resolve_enabler session e = Some (g, p)" and "\<forall>b. pvalue p \<noteq> VBool b"
  shows "check_enable_entry session rn e = Inr (Some (not_boolean_message rn (name p)))"
  using assms(2) by (cases "pvalue p") (auto simp: check_entry_resolved [OF assms(1)])

lemma check_enabled_by_iff:
  "check_enabled_by session rn es = Inr None \<longleftrightarrow> (\<forall>e \<in> set es. enabler_ok session e)"
proof (induction es)
  case Nil
  show ?case by simp
next
  case (Cons e es)
  show ?case
  proof (cases "check_enable_entry session rn e")
    case (Inl x)
    then have "\<not> enabler_ok session e" using check_entry_iff [of session rn e] by simp
    with Inl show ?thesis by simp
  next
    case (Inr r)
    show ?thesis
    proof (cases r)
      case None
      with Inr have "enabler_ok session e" using check_entry_iff [of session rn e] by simp
      with Inr None Cons.IH show ?thesis by simp
    next
      case (Some m)
      with Inr have "\<not> enabler_ok session e" using check_entry_iff [of session rn e] by simp
      with Inr Some show ?thesis by simp
    qed
  qed
qed

lemma check_enabled_by_total:
  "\<forall>e \<in> set es. resolve_enabler session e \<noteq> None \<Longrightarrow> \<exists>r. check_enabled_by session rn es = Inr r"
proof (induction es)
  case Nil
  show ?case by simp
next
  case (Cons e es)
  then obtain r where r: "check_enable_entry session rn e = Inr r"
    using check_entry_total [of session e rn] by auto
  from Cons obtain r' where "check_enabled_by session rn es = Inr r'" by auto
  with r show ?case by (cases r) auto
qed

lemma check_enabled_by_first_failure:
  "\<forall>e' \<in> set pre. enabler_ok session e' \<Longrightarrow> check_enable_entry session rn e = Inr (Some m) \<Longrightarrow>
     check_enabled_by session rn (pre @ e # post) = Inr (Some m)"
proof (induction pre)
  case Nil
  then show ?case by simp
next
  case (Cons a pre)
  then have "check_enable_entry session rn a = Inr None" by (simp add: check_entry_iff)
  with Cons show ?case by simp
qed

text \<open>
  What the method does for a result of the definition. It returns \<^verbatim>\<open>(True, None)\<close>
  exactly when \<^verbatim>\<open>enabled_by\<close> is \<^verbatim>\<open>None\<close> and the state is \<^verbatim>\<open>RAN\<close>, or \<^verbatim>\<open>enabled_by\<close> is
  a list and every reference in it points to a parameter with the boolean value
  true, with the state at least \<^verbatim>\<open>BUILT\<close> for an enabler of the build group and
  \<^verbatim>\<open>RAN\<close> for one of the run group. When the references resolve to parameters,
  every other case returns \<^verbatim>\<open>False\<close> with a message, and a first failing reference
  to a parameter that holds no boolean gives the message about the invalid
  definition.
\<close>

lemma result_availability:
  assumes "results (system session) rn = Some result"
  shows "(get_result_availability session rn = Inr (True, None) \<longleftrightarrow>
            (case enabled_by result of
               None \<Rightarrow> state session = RAN
             | Some entries \<Rightarrow> \<forall>e \<in> set entries. enabler_ok session e))
       \<and> ((\<forall>entries e. enabled_by result = Some entries \<longrightarrow> e \<in> set entries
               \<longrightarrow> resolve_enabler session e \<noteq> None)
            \<longrightarrow> get_result_availability session rn \<noteq> Inr (True, None)
            \<longrightarrow> (\<exists>message. get_result_availability session rn = Inr (False, Some message)))
       \<and> (\<forall>pre e post g p.
             enabled_by result = Some (pre @ e # post)
             \<longrightarrow> (\<forall>e' \<in> set pre. enabler_ok session e')
             \<longrightarrow> resolve_enabler session e = Some (g, p)
             \<longrightarrow> (\<forall>b. pvalue p \<noteq> VBool b)
             \<longrightarrow> get_result_availability session rn
                   = Inr (False, Some (not_boolean_message rn (name p))))"
proof (intro conjI)
  show "get_result_availability session rn = Inr (True, None) \<longleftrightarrow>
            (case enabled_by result of
               None \<Rightarrow> state session = RAN
             | Some entries \<Rightarrow> \<forall>e \<in> set entries. enabler_ok session e)"
  proof (cases "enabled_by result")
    case None
    with assms show ?thesis by (simp add: get_result_availability_def)
  next
    case (Some entries)
    have "get_result_availability session rn = Inr (True, None)
            \<longleftrightarrow> check_enabled_by session rn entries = Inr None"
      using assms Some
      by (auto simp: get_result_availability_def split: sum.splits option.splits)
    with Some show ?thesis by (simp add: check_enabled_by_iff)
  qed
next
  show "(\<forall>entries e. enabled_by result = Some entries \<longrightarrow> e \<in> set entries
               \<longrightarrow> resolve_enabler session e \<noteq> None)
            \<longrightarrow> get_result_availability session rn \<noteq> Inr (True, None)
            \<longrightarrow> (\<exists>message. get_result_availability session rn = Inr (False, Some message))"
  proof (intro impI)
    assume res: "\<forall>entries e. enabled_by result = Some entries \<longrightarrow> e \<in> set entries
               \<longrightarrow> resolve_enabler session e \<noteq> None"
      and na: "get_result_availability session rn \<noteq> Inr (True, None)"
    show "\<exists>message. get_result_availability session rn = Inr (False, Some message)"
    proof (cases "enabled_by result")
      case None
      with assms na show ?thesis
        by (auto simp: get_result_availability_def split: if_splits)
    next
      case (Some entries)
      with res have "\<forall>e \<in> set entries. resolve_enabler session e \<noteq> None" by simp
      then obtain r where "check_enabled_by session rn entries = Inr r"
        using check_enabled_by_total by blast
      with assms Some na show ?thesis
        by (cases r) (auto simp: get_result_availability_def)
    qed
  qed
next
  show "\<forall>pre e post g p.
             enabled_by result = Some (pre @ e # post)
             \<longrightarrow> (\<forall>e' \<in> set pre. enabler_ok session e')
             \<longrightarrow> resolve_enabler session e = Some (g, p)
             \<longrightarrow> (\<forall>b. pvalue p \<noteq> VBool b)
             \<longrightarrow> get_result_availability session rn
                   = Inr (False, Some (not_boolean_message rn (name p)))"
  proof (intro allI impI)
    fix pre e post g p
    assume eb: "enabled_by result = Some (pre @ e # post)"
      and pre: "\<forall>e' \<in> set pre. enabler_ok session e'"
      and r: "resolve_enabler session e = Some (g, p)"
      and nb: "\<forall>b. pvalue p \<noteq> VBool b"
    from check_entry_nonbool [OF r nb]
    have "check_enable_entry session rn e = Inr (Some (not_boolean_message rn (name p)))" .
    from check_enabled_by_first_failure [OF pre this]
    have "check_enabled_by session rn (pre @ e # post)
            = Inr (Some (not_boolean_message rn (name p)))" .
    with assms eb show "get_result_availability session rn
                   = Inr (False, Some (not_boolean_message rn (name p)))"
      by (simp add: get_result_availability_def)
  qed
qed


lemma split_trace: "split_on CHR ''/'' ''#/build_parameters/tracing'' = [''#'', ''build_parameters'', ''tracing'']"
  by simp

lemma resolve_trace:
  "resolve_enabler (trace_session t st) ''#/build_parameters/tracing''
     = Some (BUILD, tracing\<lparr>pvalue := VBool t\<rparr>)"
  by (simp add: resolve_enabler_def split_trace second_last_def ParameterGroup_of_def
        get_parameter_def trace_session_def tracing_def)

lemma result_availability_example:
  "results (system (trace_session True RAN)) ''trace.vcd'' = Some trace_result
   \<and> get_result_availability (trace_session True RAN) ''trace.vcd'' = Inr (True, None)
   \<and> get_result_availability (trace_session True FAILED_BUILD) ''trace.vcd'' \<noteq> Inr (True, None)
   \<and> (\<exists>message. get_result_availability (trace_session False RAN) ''trace.vcd''
                   = Inr (False, Some message))"
proof -
  have r: "results (system (trace_session t st)) ''trace.vcd'' = Some trace_result" for t st
    by (simp add: trace_session_def)
  have ok: "enabler_ok (trace_session t st) ''#/build_parameters/tracing''
              \<longleftrightarrow> t \<and> at_least_built st" for t st
    by (simp add: enabler_ok_def resolve_trace) (simp add: trace_session_def)
  have a: "get_result_availability (trace_session True RAN) ''trace.vcd'' = Inr (True, None)"
    using result_availability [OF r, of True RAN]
    by (simp add: trace_result_def ok at_least_built_def)
  have b: "get_result_availability (trace_session True FAILED_BUILD) ''trace.vcd'' \<noteq> Inr (True, None)"
    using result_availability [OF r, of True FAILED_BUILD]
    by (simp add: trace_result_def ok at_least_built_def)
  have "get_result_availability (trace_session False RAN) ''trace.vcd'' \<noteq> Inr (True, None)"
    using result_availability [OF r, of False RAN]
    by (simp add: trace_result_def ok)
  moreover have "\<forall>entries e. enabled_by trace_result = Some entries \<longrightarrow> e \<in> set entries
                   \<longrightarrow> resolve_enabler (trace_session False RAN) e \<noteq> None"
    by (simp add: trace_result_def resolve_trace)
  ultimately have c: "\<exists>message. get_result_availability (trace_session False RAN) ''trace.vcd''
                   = Inr (False, Some message)"
    using result_availability [OF r, of False RAN] by blast
  from r a b c show ?thesis by blast
qed


lemma split_dangling:
  "split_on CHR ''/'' ''#/build_parameters/tracing/x'' = [''#'', ''build_parameters'', ''tracing'', ''x'']"
  by simp

text \<open>
  Claim C7. The validator of the definition reads the group and the name of an
  enabling reference from the front, \<^verbatim>\<open>get_result_availability\<close> reads them from
  the back. The reference \<^verbatim>\<open>#/build_parameters/tracing/x\<close> passes the validator, and
  the session made from the definition raises \<^verbatim>\<open>ValueError\<close> for the result instead
  of returning \<^verbatim>\<open>False\<close> with a message. A result with the empty list of enablers,
  which the validator accepts as well, is reported available in state \<^verbatim>\<open>CREATED\<close>.
\<close>

theorem unresolved_enabler_raises:
  "check_result_enabled_by sysdef_traced = None
   \<and> parse_parameter_group (build_parameters sysdef_traced) None = Inr [tracing_on]
   \<and> get_result_availability (session_traced RAN) ''trace.vcd''
        = Inl (ValueError (quoted ''tracing'' @ '' is not a valid ParameterGroup''))
   \<and> get_result_availability (session_traced CREATED) ''log.txt'' = Inr (True, None)"
proof -
  have v: "check_enabler sysdef_traced ''#/build_parameters/tracing/x'' = None"
    unfolding check_enabler_def split_dangling Let_def
    by (simp add: startswith_def index_def ParameterGroup_of_def sysdef_traced_def)
  have a: "check_result_enabled_by sysdef_traced = None"
    using v by (simp add: check_result_enabled_by_def sysdef_traced_def)
  have b: "parse_parameter_group (build_parameters sysdef_traced) None = Inr [tracing_on]"
    by (simp add: parse_parameter_group_def sysdef_traced_def select_value_def entry_value_def
          Parameter_init_def tracing_on_def)
  have e: "check_enable_entry (session_traced RAN) ''trace.vcd'' ''#/build_parameters/tracing/x''
             = Inl (ValueError (quoted ''tracing'' @ '' is not a valid ParameterGroup''))"
    unfolding check_enable_entry_def split_dangling Let_def
    by (simp add: second_last_def ParameterGroup_of_def)
  have c: "get_result_availability (session_traced RAN) ''trace.vcd''
        = Inl (ValueError (quoted ''tracing'' @ '' is not a valid ParameterGroup''))"
    using e by (simp add: get_result_availability_def session_traced_def sysdef_traced_def
          group_items_def)
  have d: "get_result_availability (session_traced CREATED) ''log.txt'' = Inr (True, None)"
    by (simp add: get_result_availability_def session_traced_def sysdef_traced_def group_items_def)
  from a b c d show ?thesis by blast
qed

subsection \<open>Updating a parameter\<close>

text \<open>
  Lower-casing maps exactly a letter and its capital to an ASCII lower-case letter.
\<close>

lemma char_lower_ascii:
  assumes "(97::nat) \<le> of_char d" and "of_char d \<le> (122::nat)"
  shows "char_lower c = d \<longleftrightarrow> c = d \<or> (of_char c :: nat) + 32 = of_char d"
proof -
  have c256: "(of_char c :: nat) < 256" by simp
  have "char_lower c = d \<longleftrightarrow> (of_char (char_lower c) :: nat) = of_char d" by simp
  also have "\<dots> \<longleftrightarrow> (of_char c :: nat) = of_char d \<or> (of_char c :: nat) + 32 = of_char d"
    using assms c256 by (auto simp: char_lower_def Let_def)
  also have "\<dots> \<longleftrightarrow> c = d \<or> (of_char c :: nat) + 32 = of_char d" by simp
  finally show ?thesis .
qed

lemma char_code_eq: "(of_char c :: nat) = k \<longleftrightarrow> c = char_of k \<and> k < 256"
  by (metis char_of_char nat_of_char_less_256 of_char_of mod_less)

lemma char_lower_t: "char_lower c = CHR ''t'' \<longleftrightarrow> c = CHR ''t'' \<or> c = CHR ''T''"
proof -
  have k: "char_of (84::nat) = CHR ''T''" by code_simp
  have "(of_char c :: nat) + 32 = 116 \<longleftrightarrow> (of_char c :: nat) = 84" by arith
  also have "\<dots> \<longleftrightarrow> c = CHR ''T''" by (simp add: char_code_eq k)
  finally show ?thesis by (simp add: char_lower_ascii)
qed

lemma char_lower_r: "char_lower c = CHR ''r'' \<longleftrightarrow> c = CHR ''r'' \<or> c = CHR ''R''"
proof -
  have k: "char_of (82::nat) = CHR ''R''" by code_simp
  have "(of_char c :: nat) + 32 = 114 \<longleftrightarrow> (of_char c :: nat) = 82" by arith
  also have "\<dots> \<longleftrightarrow> c = CHR ''R''" by (simp add: char_code_eq k)
  finally show ?thesis by (simp add: char_lower_ascii)
qed

lemma char_lower_u: "char_lower c = CHR ''u'' \<longleftrightarrow> c = CHR ''u'' \<or> c = CHR ''U''"
proof -
  have k: "char_of (85::nat) = CHR ''U''" by code_simp
  have "(of_char c :: nat) + 32 = 117 \<longleftrightarrow> (of_char c :: nat) = 85" by arith
  also have "\<dots> \<longleftrightarrow> c = CHR ''U''" by (simp add: char_code_eq k)
  finally show ?thesis by (simp add: char_lower_ascii)
qed

lemma char_lower_e: "char_lower c = CHR ''e'' \<longleftrightarrow> c = CHR ''e'' \<or> c = CHR ''E''"
proof -
  have k: "char_of (69::nat) = CHR ''E''" by code_simp
  have "(of_char c :: nat) + 32 = 101 \<longleftrightarrow> (of_char c :: nat) = 69" by arith
  also have "\<dots> \<longleftrightarrow> c = CHR ''E''" by (simp add: char_code_eq k)
  finally show ?thesis by (simp add: char_lower_ascii)
qed

lemma map_eq_4:
  "map f s = [a, b, c, d] \<longleftrightarrow>
     (\<exists>w x y z. s = [w, x, y, z] \<and> f w = a \<and> f x = b \<and> f y = c \<and> f z = d)"
proof
  assume h: "map f s = [a, b, c, d]"
  then have "length (map f s) = length [a, b, c, d]" by (rule arg_cong)
  then have "length s = 4" by simp
  then obtain w x y z where "s = [w, x, y, z]"
    by (cases s; simp; (cases "tl s"; simp; (cases "tl (tl s)"; simp; cases "tl (tl (tl s))"; simp)))
  with h show "\<exists>w x y z. s = [w, x, y, z] \<and> f w = a \<and> f x = b \<and> f y = c \<and> f z = d" by simp
next
  assume "\<exists>w x y z. s = [w, x, y, z] \<and> f w = a \<and> f x = b \<and> f y = c \<and> f z = d"
  then show "map f s = [a, b, c, d]" by auto
qed

text \<open>The strings that \<^verbatim>\<open>lower()\<close> turns into \<^verbatim>\<open>true\<close> are its sixteen spellings.\<close>

lemma str_lower_true:
  "str_lower s = ''true'' \<longleftrightarrow>
     (\<exists>a b c d. s = [a, b, c, d] \<and> a \<in> {CHR ''t'', CHR ''T''} \<and> b \<in> {CHR ''r'', CHR ''R''}
        \<and> c \<in> {CHR ''u'', CHR ''U''} \<and> d \<in> {CHR ''e'', CHR ''E''})"
  unfolding str_lower_def map_eq_4
  by (simp add: char_lower_t char_lower_r char_lower_u char_lower_e)

text \<open>
  Claim C10, as the code has it. When the current value of a parameter is a
  boolean, a new value that is a string sets it to true exactly when the
  lower-cased string is \<^verbatim>\<open>true\<close> and to false for every other string, a new value
  that is a boolean is taken as it is, and a new value that is neither a string
  nor a boolean raises \<^verbatim>\<open>AttributeError\<close> and changes nothing; when the current
  value is no boolean, the new value is stored unchanged.
\<close>

theorem update_parameter_coercion:
  "(pvalue p = VBool cur \<longrightarrow>
       update_parameter p (VStr s) = Inr (p\<lparr>pvalue := VBool (str_lower s = ''true'')\<rparr>)
     \<and> update_parameter p (VBool b) = Inr (p\<lparr>pvalue := VBool b\<rparr>)
     \<and> ((\<forall>t. v \<noteq> VStr t) \<and> (\<forall>c. v \<noteq> VBool c) \<longrightarrow> update_parameter p v = Inl AttributeError))
   \<and> ((\<forall>other. pvalue p \<noteq> VBool other) \<longrightarrow> update_parameter p v = Inr (p\<lparr>pvalue := v\<rparr>))"
  by (cases v) (auto simp: update_parameter_def split: pyvalue.splits)

theorem update_parameter_coercion_witness:
  "update_parameter tracing (VStr ''TRUE'') = Inr (tracing\<lparr>pvalue := VBool True\<rparr>)
   \<and> update_parameter tracing (VStr ''yes'') = Inr (tracing\<lparr>pvalue := VBool False\<rparr>)
   \<and> update_parameter tracing (VStr ''1'') = Inr (tracing\<lparr>pvalue := VBool False\<rparr>)
   \<and> update_parameter tracing (VBool True) = Inr (tracing\<lparr>pvalue := VBool True\<rparr>)
   \<and> update_parameter cycles (VStr ''fast'') = Inr (cycles\<lparr>pvalue := VStr ''fast''\<rparr>)
   \<and> update_parameter tracing (VFloat (Finite (3 / 2))) = Inl AttributeError"
proof -
  have e: "str_lower ''TRUE'' = ''true''" "str_lower ''yes'' \<noteq> ''true''" "str_lower ''1'' \<noteq> ''true''"
    by (simp_all add: str_lower_true)
  have t: "pvalue tracing = VBool False" and c: "\<forall>other. pvalue cycles \<noteq> VBool other"
    by (simp_all add: tracing_def cycles_def)
  have f: "(\<forall>t. VFloat (Finite (3 / 2)) \<noteq> VStr t) \<and> (\<forall>c. VFloat (Finite (3 / 2)) \<noteq> VBool c)"
    by simp
  have "update_parameter tracing (VFloat (Finite (3 / 2))) = Inl AttributeError"
    using update_parameter_coercion
            [where p = tracing and cur = False and v = "VFloat (Finite (3 / 2))", THEN conjunct1] t f
    by blast
  moreover have "update_parameter tracing (VStr ''TRUE'') = Inr (tracing\<lparr>pvalue := VBool True\<rparr>)
      \<and> update_parameter tracing (VBool True) = Inr (tracing\<lparr>pvalue := VBool True\<rparr>)"
    using update_parameter_coercion
            [where p = tracing and cur = False and s = "''TRUE''" and b = True,
             THEN conjunct1, rule_format, OF t] e by simp
  moreover have "update_parameter tracing (VStr ''yes'') = Inr (tracing\<lparr>pvalue := VBool False\<rparr>)"
    using update_parameter_coercion
            [where p = tracing and cur = False and s = "''yes''", THEN conjunct1, rule_format, OF t] e
    by simp
  moreover have "update_parameter tracing (VStr ''1'') = Inr (tracing\<lparr>pvalue := VBool False\<rparr>)"
    using update_parameter_coercion
            [where p = tracing and cur = False and s = "''1''", THEN conjunct1, rule_format, OF t] e
    by simp
  moreover have "update_parameter cycles (VStr ''fast'') = Inr (cycles\<lparr>pvalue := VStr ''fast''\<rparr>)"
    using update_parameter_coercion [where p = cycles and v = "VStr ''fast''", THEN conjunct2] c
    by blast
  ultimately show ?thesis by blast
qed

text \<open>
  Claim C10 as it was stated fails: the new value 1, an integer, is a non-boolean
  value, but it is not coerced; the call raises and the parameter keeps \<^verbatim>\<open>true\<close>.
\<close>

theorem update_integer_raises:
  "pvalue (tracing\<lparr>pvalue := VBool True\<rparr>) = VBool True
   \<and> update_parameter (tracing\<lparr>pvalue := VBool True\<rparr>) (VInt 1) = Inl AttributeError"
  by (simp add: update_parameter_def tracing_def)


end
